theory Spec2Isabelle
  imports Complex_Main "HOL-Library.Sublist"
begin

section \<open>JavaScript values and strings\<close>

text \<open>
  The engine is \<^verbatim>\<open>business-analysis-app/shared/userStoryAgent.js\<close>. A JavaScript string
  is a sequence of UTF-16 code units, and \<^verbatim>\<open>length\<close> counts code units, so a string is
  modelled as the list of its code units. \<open>js\<close> turns an ASCII literal of the source
  into that list.
\<close>

type_synonym jsstring = "nat list"

definition js :: "string \<Rightarrow> jsstring" where
  "js s = map of_char s"

text \<open>
  The values that reach the engine come out of \<^verbatim>\<open>JSON.parse\<close> (or are absent), and the
  report it returns is a tree of object literals. Object fields are kept in the order
  in which the literal lists them.
\<close>

datatype jsval =
    JUndefined
  | JNull
  | JBool bool
  | JNum rat
  | JStr jsstring
  | JArr "jsval list"
  | JObj "(string \<times> jsval) list"

datatype error = TypeError

text \<open>\<^verbatim>\<open>!v\<close> is \<open>\<not> truthy v\<close>.\<close>

fun truthy :: "jsval \<Rightarrow> bool" where
  "truthy JUndefined = False"
| "truthy JNull = False"
| "truthy (JBool b) = b"
| "truthy (JNum n) = (n \<noteq> 0)"
| "truthy (JStr s) = (s \<noteq> [])"
| "truthy (JArr xs) = True"
| "truthy (JObj fs) = True"

text \<open>Reading a property of a report: \<open>JUndefined\<close> when the object has no such field.\<close>

fun field :: "string \<Rightarrow> jsval \<Rightarrow> jsval" where
  "field k (JObj fs) = (case map_of fs k of Some v \<Rightarrow> v | None \<Rightarrow> JUndefined)"
| "field k v = JUndefined"

fun has_field :: "string \<Rightarrow> jsval \<Rightarrow> bool" where
  "has_field k (JObj fs) = (map_of fs k \<noteq> None)"
| "has_field k v = False"

subsection \<open>String methods\<close>

text \<open>
  \<^verbatim>\<open>trim\<close> removes white space and line terminators (ECMAScript \<^verbatim>\<open>WhiteSpace\<close> and
  \<^verbatim>\<open>LineTerminator\<close>) from both ends.
\<close>

definition js_whitespace :: "nat \<Rightarrow> bool" where
  "js_whitespace c =
     (c = 9 \<or> c = 10 \<or> c = 11 \<or> c = 12 \<or> c = 13 \<or> c = 32 \<or> c = 160 \<or> c = 5760
      \<or> (8192 \<le> c \<and> c \<le> 8202) \<or> c = 8232 \<or> c = 8233 \<or> c = 8239 \<or> c = 8287
      \<or> c = 12288 \<or> c = 65279)"

definition trim :: "jsstring \<Rightarrow> jsstring" where
  "trim s = rev (dropWhile js_whitespace (rev (dropWhile js_whitespace s)))"

text \<open>
  \<^verbatim>\<open>toLowerCase\<close>. The engine only searches the lower-cased text for ASCII keywords, so
  the model lower-cases the code units whose lower-case form contains an ASCII unit:
  \<^verbatim>\<open>A\<close> to \<^verbatim>\<open>Z\<close>, U+0130 (which becomes \<^verbatim>\<open>i\<close> followed by U+0307) and U+212A (the Kelvin
  sign, which becomes \<^verbatim>\<open>k\<close>). Every other unit is left in place: its lower-case form
  has no ASCII unit, so no keyword search can tell the difference.
\<close>

definition lower_unit :: "nat \<Rightarrow> jsstring" where
  "lower_unit c =
     (if 65 \<le> c \<and> c \<le> 90 then [c + 32]
      else if c = 304 then [105, 775]
      else if c = 8490 then [107]
      else [c])"

definition toLowerCase :: "jsstring \<Rightarrow> jsstring" where
  "toLowerCase s = concat (map lower_unit s)"

text \<open>\<^verbatim>\<open>s.includes(kw)\<close>: \<open>kw\<close> occurs in \<open>s\<close> at some position.\<close>

fun includes_js :: "jsstring \<Rightarrow> jsstring \<Rightarrow> bool" where
  "includes_js [] kw = (kw = [])"
| "includes_js (c # cs) kw = (prefix kw (c # cs) \<or> includes_js cs kw)"

text \<open>\<^verbatim>\<open>s.split('\n')\<close>: the pieces between line feeds (code unit 10); never an empty array.\<close>

fun split_nl :: "jsstring \<Rightarrow> jsstring list" where
  "split_nl [] = [[]]"
| "split_nl (c # cs) =
     (if c = 10 then [] # split_nl cs
      else (case split_nl cs of
              x # xs \<Rightarrow> (c # x) # xs
            | [] \<Rightarrow> [[c]]))"

text \<open>\<^verbatim>\<open>xs.join(sep)\<close>.\<close>

fun join :: "jsstring \<Rightarrow> jsstring list \<Rightarrow> jsstring" where
  "join sep [] = []"
| "join sep [x] = x"
| "join sep (x # y # ys) = x @ sep @ join sep (y # ys)"

text \<open>A non-negative integer inside a template literal: its decimal digits.\<close>

fun string_of_nat :: "nat \<Rightarrow> jsstring" where
  "string_of_nat n =
     (if n < 10 then [48 + n] else string_of_nat (n div 10) @ [48 + n mod 10])"

declare string_of_nat.simps [simp del]

text \<open>
  \<^verbatim>\<open>Math.round\<close>: the nearest integer, a half going up. Numbers are rationals here. The
  engine computes \<^verbatim>\<open>(actualScore / 100) * 100\<close> in double precision, where the product
  may miss the integer \<^verbatim>\<open>actualScore\<close> by a last binary digit; rounding returns the same
  integer in both arithmetics.
\<close>

definition js_round :: "rat \<Rightarrow> int" where
  "js_round x = \<lfloor>x + 1 / 2\<rfloor>"

section \<open>CONFIG\<close>

subsection \<open>\<^verbatim>\<open>STORY_FORMAT_REGEX\<close>\<close>

text \<open>
  \<^verbatim>\<open>/As an? (.*), I want (.*), so that (.*)/i\<close>, as a backtracking matcher. The literal
  parts are ASCII and the flag \<^verbatim>\<open>i\<close> (without \<^verbatim>\<open>u\<close>) never folds a code unit from 128
  upwards onto an ASCII one, so a unit matches a pattern character when both have the
  same ASCII upper-case form. \<^verbatim>\<open>.\<close> matches every unit but the four line terminators.
\<close>

definition ascii_upper :: "nat \<Rightarrow> nat" where
  "ascii_upper c = (if 97 \<le> c \<and> c \<le> 122 then c - 32 else c)"

definition line_terminator :: "nat \<Rightarrow> bool" where
  "line_terminator c = (c = 10 \<or> c = 13 \<or> c = 8232 \<or> c = 8233)"

text \<open>A literal part of the pattern at the start of the text: the rest of the text.\<close>

fun literal :: "jsstring \<Rightarrow> jsstring \<Rightarrow> jsstring option" where
  "literal [] s = Some s"
| "literal (p # ps) [] = None"
| "literal (p # ps) (c # cs) =
     (if ascii_upper c = ascii_upper p then literal ps cs else None)"

text \<open>
  A greedy \<^verbatim>\<open>(.*)\<close> followed by the rest of the pattern \<open>k\<close>: the longest run first,
  then one unit less at each backtracking step.
\<close>

fun backtrack :: "nat \<Rightarrow> jsstring \<Rightarrow> (jsstring \<Rightarrow> jsstring \<Rightarrow> 'a option) \<Rightarrow> 'a option" where
  "backtrack 0 s k = k [] s"
| "backtrack (Suc n) s k =
     (case k (take (Suc n) s) (drop (Suc n) s) of
        Some r \<Rightarrow> Some r
      | None \<Rightarrow> backtrack n s k)"

definition dot_run :: "jsstring \<Rightarrow> jsstring" where
  "dot_run s = takeWhile (\<lambda>c. \<not> line_terminator c) s"

definition dot_star :: "jsstring \<Rightarrow> (jsstring \<Rightarrow> jsstring \<Rightarrow> 'a option) \<Rightarrow> 'a option" where
  "dot_star s k = backtrack (length (dot_run s)) s k"

text \<open>The match array: the three capture groups (element 0, the whole match, is never read).\<close>

record format_match =
  group1 :: jsstring
  group2 :: jsstring
  group3 :: jsstring

definition match_value :: "jsstring \<Rightarrow> jsstring option" where
  "match_value s =
     (case literal (js '', so that '') s of
        None \<Rightarrow> None
      | Some r \<Rightarrow> Some (dot_run r))"

definition match_goal :: "jsstring \<Rightarrow> (jsstring \<times> jsstring) option" where
  "match_goal s =
     (case literal (js '', I want '') s of
        None \<Rightarrow> None
      | Some r \<Rightarrow> dot_star r (\<lambda>g r'. map_option (\<lambda>v. (g, v)) (match_value r')))"

definition match_persona :: "jsstring \<Rightarrow> format_match option" where
  "match_persona s =
     (case literal (js '' '') s of
        None \<Rightarrow> None
      | Some r \<Rightarrow>
          dot_star r (\<lambda>p r'.
            map_option (\<lambda>(g, v). \<lparr>group1 = p, group2 = g, group3 = v\<rparr>) (match_goal r')))"

text \<open>\<^verbatim>\<open>As an?\<close> at the start of the text: the optional \<^verbatim>\<open>n\<close> is tried first.\<close>

definition match_here :: "jsstring \<Rightarrow> format_match option" where
  "match_here s =
     (case literal (js ''As a'') s of
        None \<Rightarrow> None
      | Some r \<Rightarrow>
          (case literal (js ''n'') r of
             None \<Rightarrow> match_persona r
           | Some r' \<Rightarrow>
               (case match_persona r' of
                  Some m \<Rightarrow> Some m
                | None \<Rightarrow> match_persona r)))"

text \<open>\<^verbatim>\<open>story.match(CONFIG.STORY_FORMAT_REGEX)\<close>: the leftmost position that matches.\<close>

fun STORY_FORMAT_REGEX :: "jsstring \<Rightarrow> format_match option" where
  "STORY_FORMAT_REGEX [] = match_here []"
| "STORY_FORMAT_REGEX (c # cs) =
     (case match_here (c # cs) of
        Some m \<Rightarrow> Some m
      | None \<Rightarrow> STORY_FORMAT_REGEX cs)"

subsection \<open>Thresholds, keywords and scores\<close>

definition SHORT_STORY_LENGTH :: nat where "SHORT_STORY_LENGTH = 25"
definition LONG_STORY_LENGTH :: nat where "LONG_STORY_LENGTH = 200"
definition MAX_ACCEPTANCE_CRITERIA :: nat where "MAX_ACCEPTANCE_CRITERIA = 7"

definition AMBIGUOUS :: "jsstring list" where
  "AMBIGUOUS = [js ''should'', js ''could'', js ''might'']"

definition DEPENDENCIES :: "jsstring list" where
  "DEPENDENCIES = [js ''dependent on'', js ''after'', js ''following'', js ''once'']"

definition TECHNICAL :: "jsstring list" where
  "TECHNICAL = [js ''database schema'', js ''api endpoint'', js ''react component'',
     js ''algorithm'', js ''sql query'']"

definition TESTABLE_AC :: "jsstring list" where
  "TESTABLE_AC = [js ''verify that'', js ''ensure that'', js ''given'', js ''when'',
     js ''then'', js ''confirm that'']"

definition FORMAT_SUCCESS :: int where "FORMAT_SUCCESS = 10"
definition FORMAT_FAIL :: int where "FORMAT_FAIL = 2"
definition CLARITY_BASE :: int where "CLARITY_BASE = 10"
definition CLARITY_BONUS_CONCISE :: int where "CLARITY_BONUS_CONCISE = 5"
definition CLARITY_BONUS_SPECIFIC :: int where "CLARITY_BONUS_SPECIFIC = 5"
definition AC_PROVIDED :: int where "AC_PROVIDED = 15"
definition AC_EMPTY :: int where "AC_EMPTY = 5"
definition AC_MISSING :: int where "AC_MISSING = 0"
definition AC_NON_TESTABLE_DEDUCTION :: int where "AC_NON_TESTABLE_DEDUCTION = 5"
definition INVEST_DEFAULT_HIGH :: int where "INVEST_DEFAULT_HIGH = 8"
definition INVEST_DEFAULT_MEDIUM :: int where "INVEST_DEFAULT_MEDIUM = 6"
definition INVEST_DEFAULT_LOW :: int where "INVEST_DEFAULT_LOW = 3"

text \<open>\<^verbatim>\<open>CONFIG.KEYWORDS.X.some(term => text.toLowerCase().includes(term))\<close>.\<close>

definition some_keyword :: "jsstring list \<Rightarrow> jsstring \<Rightarrow> bool" where
  "some_keyword kws text = list_ex (\<lambda>kw. includes_js (toLowerCase text) kw) kws"

subsection \<open>\<^verbatim>\<open>READINESS_CATEGORIES\<close>\<close>

record category =
  score :: int
  label :: jsstring
  summary :: jsstring

text \<open>
  The labels start with an emoji and hold an en dash (U+2013); these are written as
  their UTF-16 code units: U+2705; U+26A0 U+FE0F; U+2757; U+1F6AB as the surrogate
  pair D83D DEAB.
\<close>

definition READINESS_CATEGORIES :: "category list" where
  "READINESS_CATEGORIES =
    [\<lparr>score = 90,
      label = [9989] @ js '' Excellent '' @ [8211] @ js '' Ready for Development'',
      summary = js ''Story is well-formed, clear, and meets all INVEST criteria. Minimal or no changes needed.''\<rparr>,
     \<lparr>score = 71,
      label = [9888, 65039] @ js '' At Standard Expected '' @ [8211] @ js '' Minor Refinement Needed'',
      summary = js ''Mostly ready with small gaps. Can be addressed quickly.''\<rparr>,
     \<lparr>score = 50,
      label = [10071] @ js '' Requires Improvement '' @ [8211] @ js '' Needs Refinement'',
      summary = js ''Multiple issues present. Not ready for development without rework.''\<rparr>,
     \<lparr>score = 0,
      label = [55357, 57003] @ js '' Not Ready '' @ [8211] @ js '' Fundamentally Incomplete'',
      summary = js ''Lacks essential components. Requires major revision or clarification.''\<rparr>]"

section \<open>Helper functions\<close>

text \<open>\<^verbatim>\<open>find\<close> gives \<^verbatim>\<open>undefined\<close> (here \<open>None\<close>) when no band is reached.\<close>

definition getReadinessCategory :: "int \<Rightarrow> category option" where
  "getReadinessCategory s = find (\<lambda>cat. s \<ge> category.score cat) READINESS_CATEGORIES"

record ac_analysis =
  criteria :: "jsstring list"
  testableKeywordsFound :: bool
  nonTestableCount :: nat

definition isTestable :: "jsstring \<Rightarrow> bool" where
  "isTestable c = some_keyword TESTABLE_AC c"

text \<open>The body of the \<^verbatim>\<open>forEach\<close>, on the two counters it updates.\<close>

definition count_criterion :: "jsstring \<Rightarrow> nat \<times> bool \<Rightarrow> nat \<times> bool" where
  "count_criterion c st =
     (case st of (nonTestable, found) \<Rightarrow>
        if \<not> isTestable c then (nonTestable + 1, found) else (nonTestable, True))"

text \<open>
  A truthy argument that is not a string has no \<^verbatim>\<open>trim\<close> method: calling it raises a
  \<^verbatim>\<open>TypeError\<close>.
\<close>

definition analyzeAcceptanceCriteria :: "jsval \<Rightarrow> error + ac_analysis" where
  "analyzeAcceptanceCriteria acceptanceCriteriaText =
     (if \<not> truthy acceptanceCriteriaText
      then Inr \<lparr>criteria = [], testableKeywordsFound = False, nonTestableCount = 0\<rparr>
      else (case acceptanceCriteriaText of
              JStr s \<Rightarrow>
                if trim s = []
                then Inr \<lparr>criteria = [], testableKeywordsFound = False, nonTestableCount = 0\<rparr>
                else
                  (let crit = filter (\<lambda>c. trim c \<noteq> []) (split_nl s);
                       counters = fold count_criterion crit (0, False)
                   in Inr \<lparr>criteria = crit, testableKeywordsFound = snd counters,
                            nonTestableCount = fst counters\<rparr>)
            | _ \<Rightarrow> Inl TypeError))"

section \<open>Core analysis functions\<close>

record section_score =
  score :: int
  feedback :: jsstring

record clarity_analysis =
  total :: int
  formatCheck :: section_score
  clarityAmbiguity :: section_score
  acceptanceCriteria :: section_score

subsection \<open>\<^verbatim>\<open>analyzeClarityAndRequirement\<close>\<close>

text \<open>
  Each local constant of the function is a definition of its own, taking what it is
  computed from. A variable that the source updates in place (\<^verbatim>\<open>clarityScore\<close>,
  \<^verbatim>\<open>clarityFeedbackItems\<close>, \<^verbatim>\<open>acScore\<close>, \<^verbatim>\<open>acFeedback\<close>) is numbered at each update.
\<close>

definition formatScore :: "jsstring \<Rightarrow> int" where
  "formatScore story =
     (let formatMatch = STORY_FORMAT_REGEX story
      in if formatMatch \<noteq> None then FORMAT_SUCCESS else FORMAT_FAIL)"

definition formatFeedback :: "jsstring \<Rightarrow> jsstring" where
  "formatFeedback story =
     (let formatMatch = STORY_FORMAT_REGEX story
      in if formatMatch \<noteq> None
         then js ''Story follows the standard 'As a [persona], I want [goal], so that [value]' format.''
         else js ''Story does not strictly follow the 'As a [persona], I want [goal], so that [value]' format. This helps ensure role, action, and benefit are clear.'')"

definition hasAmbiguousTerms :: "jsstring \<Rightarrow> bool" where
  "hasAmbiguousTerms story = some_keyword AMBIGUOUS story"

definition clarityScore :: "jsstring \<Rightarrow> int" where
  "clarityScore story =
     (let clarityScore0 = CLARITY_BASE;
          clarityScore1 =
            (if length story < SHORT_STORY_LENGTH then clarityScore0
             else clarityScore0 + CLARITY_BONUS_CONCISE);
          clarityScore2 =
            (if hasAmbiguousTerms story then clarityScore1
             else clarityScore1 + CLARITY_BONUS_SPECIFIC)
      in clarityScore2)"

definition clarityFeedbackItems :: "jsstring \<Rightarrow> jsstring list" where
  "clarityFeedbackItems story =
     (let items0 = [];
          items1 =
            (if length story < SHORT_STORY_LENGTH
             then items0 @ [js ''Story seems very short, ensure it's sufficiently detailed.'']
             else items0);
          items2 =
            (if hasAmbiguousTerms story
             then items1 @ [js ''Avoid ambiguous terms like 'should', 'could', or 'might'. Be specific.'']
             else items1)
      in items2)"

definition clarityFinalScore :: "jsstring \<Rightarrow> int" where
  "clarityFinalScore story = min 15 (clarityScore story)"

definition clarityFinalFeedback :: "jsstring \<Rightarrow> jsstring" where
  "clarityFinalFeedback story =
     (if length (clarityFeedbackItems story) > 0 then join (js '' '') (clarityFeedbackItems story)
      else js ''Language appears reasonably clear.'')"

text \<open>
  \<^verbatim>\<open>acAnalysis.nonTestableCount > acAnalysis.criteria.length / 2\<close>: the division is the
  division of numbers, not of integers.
\<close>

definition mostly_non_testable :: "ac_analysis \<Rightarrow> bool" where
  "mostly_non_testable acAnalysis =
     ((of_nat (nonTestableCount acAnalysis) :: rat) > of_nat (length (criteria acAnalysis)) / 2)"

definition acScore :: "jsval \<Rightarrow> ac_analysis \<Rightarrow> int" where
  "acScore acceptanceCriteriaText acAnalysis =
     (let acScore0 = AC_MISSING
      in if truthy acceptanceCriteriaText
         then (if length (criteria acAnalysis) > 0
               then (let acScore1 = AC_PROVIDED
                     in if mostly_non_testable acAnalysis
                        then acScore1 - AC_NON_TESTABLE_DEDUCTION
                        else acScore1)
               else AC_EMPTY)
         else acScore0)"

definition acFeedback :: "jsval \<Rightarrow> ac_analysis \<Rightarrow> jsstring" where
  "acFeedback acceptanceCriteriaText acAnalysis =
     (let acFeedback0 = js ''Acceptance criteria are missing. Clear, testable ACs are essential. Consider using the 'Given/When/Then' format.''
      in if truthy acceptanceCriteriaText
         then (if length (criteria acAnalysis) > 0
               then (let acFeedback1 = js ''Acceptance criteria provided (''
                             @ string_of_nat (length (criteria acAnalysis))
                             @ js '' criteria found). Ensure they are specific and testable.''
                     in if mostly_non_testable acAnalysis
                        then acFeedback1 @ js '' Some ACs may not be easily testable; consider phrasing with keywords like 'Verify that...' or using Gherkin (Given/When/Then).''
                        else acFeedback1)
               else js ''Acceptance criteria section is present but empty. Please define clear, testable acceptance criteria.'')
         else acFeedback0)"

definition analyzeClarityAndRequirement :: "jsstring \<Rightarrow> jsval \<Rightarrow> error + clarity_analysis" where
  "analyzeClarityAndRequirement story acceptanceCriteriaText =
     (case analyzeAcceptanceCriteria acceptanceCriteriaText of
        Inl e \<Rightarrow> Inl e
      | Inr acAnalysis \<Rightarrow>
          Inr \<lparr>total = formatScore story + clarityFinalScore story
                   + acScore acceptanceCriteriaText acAnalysis,
               formatCheck = \<lparr>score = formatScore story, feedback = formatFeedback story\<rparr>,
               clarityAmbiguity =
                 \<lparr>score = clarityFinalScore story, feedback = clarityFinalFeedback story\<rparr>,
               acceptanceCriteria =
                 \<lparr>score = acScore acceptanceCriteriaText acAnalysis,
                  feedback = acFeedback acceptanceCriteriaText acAnalysis\<rparr>\<rparr>)"

subsection \<open>\<^verbatim>\<open>analyzeINVEST\<close>\<close>

record invest_score =
  score :: int
  justification :: jsstring

record invest_analysis =
  total :: int
  independent :: invest_score
  negotiable :: invest_score
  valuable :: invest_score
  estimable :: invest_score
  small :: invest_score
  testable :: invest_score

text \<open>
  The six assessments, named after the local constant and the letter of INVEST it
  scores (the bare names are the fields of the result).
\<close>

definition hasDependencyKeywords :: "jsstring \<Rightarrow> bool" where
  "hasDependencyKeywords story = some_keyword DEPENDENCIES story"

definition independent_I :: "jsstring \<Rightarrow> invest_score" where
  "independent_I story =
     \<lparr>score = (if hasDependencyKeywords story then INVEST_DEFAULT_LOW else INVEST_DEFAULT_MEDIUM),
      justification =
        (if hasDependencyKeywords story
         then js ''Story may have dependencies based on keywords. Clarify if it can be worked on without external blockers.''
         else js ''Assumed to be developable independently. Review for hidden dependencies.'')\<rparr>"

definition hasTechnicalTerms :: "jsstring \<Rightarrow> bool" where
  "hasTechnicalTerms story = some_keyword TECHNICAL story"

definition negotiable_N :: "jsstring \<Rightarrow> invest_score" where
  "negotiable_N story =
     \<lparr>score = (if hasTechnicalTerms story then INVEST_DEFAULT_LOW else INVEST_DEFAULT_HIGH),
      justification =
        (if hasTechnicalTerms story
         then js ''Story might be too prescriptive with technical details. Focus on user needs, not implementation.''
         else js ''Story seems to describe 'what' not 'how', allowing for implementation discussion.'')\<rparr>"

text \<open>
  \<^verbatim>\<open>formatMatch && formatMatch[3] && formatMatch[3].trim().length > 5\<close>: an empty third
  group is falsy.
\<close>

definition hasClearValue :: "format_match option \<Rightarrow> bool" where
  "hasClearValue formatMatch =
     (case formatMatch of
        None \<Rightarrow> False
      | Some m \<Rightarrow> group3 m \<noteq> [] \<and> length (trim (group3 m)) > 5)"

definition valuable_V :: "jsstring \<Rightarrow> invest_score" where
  "valuable_V story =
     (let formatMatch = STORY_FORMAT_REGEX story
      in \<lparr>score = (if hasClearValue formatMatch then 10 else INVEST_DEFAULT_LOW),
          justification =
            (case formatMatch of
               Some m \<Rightarrow>
                 if hasClearValue formatMatch
                 then js ''Value proposition '' @ [39] @ group3 m @ [39] @ js '' seems clear.''
                 else js ''The 'so that [value]' part of the story is missing or unclear. State the benefit to the user or business.''
             | None \<Rightarrow> js ''The 'so that [value]' part of the story is missing or unclear. State the benefit to the user or business.'')\<rparr>)"

definition isEstimable :: "jsstring \<Rightarrow> ac_analysis \<Rightarrow> bool" where
  "isEstimable story acAnalysis =
     (length (criteria acAnalysis) > 0 \<and> length story > SHORT_STORY_LENGTH)"

definition estimable_E :: "jsstring \<Rightarrow> ac_analysis \<Rightarrow> invest_score" where
  "estimable_E story acAnalysis =
     \<lparr>score = (if isEstimable story acAnalysis then INVEST_DEFAULT_HIGH else INVEST_DEFAULT_MEDIUM),
      justification =
        (if isEstimable story acAnalysis
         then js ''Story and ACs provide a solid basis for estimation.''
         else js ''Story or ACs may be too vague or missing, making estimation difficult. Please provide more detail.'')\<rparr>"

definition isLarge :: "jsstring \<Rightarrow> ac_analysis \<Rightarrow> bool" where
  "isLarge story acAnalysis =
     (length story > LONG_STORY_LENGTH \<or> length (criteria acAnalysis) > MAX_ACCEPTANCE_CRITERIA)"

definition small_S :: "jsstring \<Rightarrow> ac_analysis \<Rightarrow> invest_score" where
  "small_S story acAnalysis =
     \<lparr>score = (if isLarge story acAnalysis then INVEST_DEFAULT_LOW else INVEST_DEFAULT_HIGH),
      justification =
        (if isLarge story acAnalysis
         then js ''Story or number of ACs seems large. Consider if it can be broken down into smaller, valuable pieces.''
         else js ''Story appears to be a reasonable size, likely completable within a single sprint.'')\<rparr>"

definition testableScore :: "ac_analysis \<Rightarrow> int" where
  "testableScore acAnalysis =
     (let testableScore0 = INVEST_DEFAULT_LOW
      in if length (criteria acAnalysis) > 0
         then (if testableKeywordsFound acAnalysis then INVEST_DEFAULT_HIGH
               else INVEST_DEFAULT_MEDIUM)
         else testableScore0)"

definition testableJustification :: "ac_analysis \<Rightarrow> jsstring" where
  "testableJustification acAnalysis =
     (let testableJustification0 = js ''Testability cannot be assessed without clear acceptance criteria.''
      in if length (criteria acAnalysis) > 0
         then (let testableJustification1 = js ''Acceptance criteria provided. Ensure they are unambiguous and allow for clear pass/fail conditions.''
               in if nonTestableCount acAnalysis > 0
                  then testableJustification1 @ js '' '' @ string_of_nat (nonTestableCount acAnalysis)
                    @ js '' AC(s) may benefit from clearer testable language (e.g., using 'Verify that...').''
                  else testableJustification1)
         else testableJustification0)"

definition testable_T :: "ac_analysis \<Rightarrow> invest_score" where
  "testable_T acAnalysis =
     \<lparr>score = testableScore acAnalysis, justification = testableJustification acAnalysis\<rparr>"

definition analyzeINVEST :: "jsstring \<Rightarrow> jsval \<Rightarrow> error + invest_analysis" where
  "analyzeINVEST story acceptanceCriteriaText =
     (case analyzeAcceptanceCriteria acceptanceCriteriaText of
        Inl e \<Rightarrow> Inl e
      | Inr acAnalysis \<Rightarrow>
          Inr \<lparr>total = invest_score.score (independent_I story)
                   + invest_score.score (negotiable_N story)
                   + invest_score.score (valuable_V story)
                   + invest_score.score (estimable_E story acAnalysis)
                   + invest_score.score (small_S story acAnalysis)
                   + invest_score.score (testable_T acAnalysis),
               independent = independent_I story,
               negotiable = negotiable_N story,
               valuable = valuable_V story,
               estimable = estimable_E story acAnalysis,
               small = small_S story acAnalysis,
               testable = testable_T acAnalysis\<rparr>)"

section \<open>Reporting and recommendation generation\<close>

record recommendations =
  suggestedImprovements :: jsstring
  storyDecomposition :: "jsstring list"

record queries_and_recommendations =
  queries :: "jsstring list"
  recommendations :: recommendations

text \<open>
  \<^verbatim>\<open>generateQueriesAndRecommendations\<close>: six rules in a fixed order, each pushing onto
  the arrays; the arrays are numbered at each rule. The \<^verbatim>\<open>story\<close> parameter is not read.
\<close>

definition generateQueriesAndRecommendations ::
  "jsstring \<Rightarrow> clarity_analysis \<Rightarrow> invest_analysis \<Rightarrow> queries_and_recommendations" where
  \<open>generateQueriesAndRecommendations story clarityAnalysis investAnalysis =
     (let improvements1 =
            (if section_score.score (formatCheck clarityAnalysis) < FORMAT_SUCCESS
             then [js ''Rephrase story to fit the standard format: "As a [persona], I want [goal], so that [value]".'']
             else []);
          r2 = (section_score.score (acceptanceCriteria clarityAnalysis) < AC_PROVIDED);
          queries2 =
            (if r2 then [js ''Could you provide or refine the acceptance criteria to be more specific and testable?'']
             else []);
          improvements2 =
            (if r2 then improvements1 @ [js ''Refine ACs: '' @ feedback (acceptanceCriteria clarityAnalysis)]
             else improvements1);
          r3 = (invest_score.score (valuable investAnalysis) < 10);
          queries3 =
            (if r3 then queries2 @ [js ''What is the specific value or benefit this story delivers?'']
             else queries2);
          improvements3 =
            (if r3 then improvements2 @ [js ''Clarify value: '' @ justification (valuable investAnalysis)]
             else improvements2);
          r4 = (invest_score.score (small investAnalysis) < INVEST_DEFAULT_HIGH);
          queries4 =
            (if r4 then queries3 @ [js ''Is this story small enough for one sprint? If not, how can it be split?'']
             else queries3);
          improvements4 =
            (if r4 then improvements3 @ [js ''Consider story size: '' @ justification (small investAnalysis)]
             else improvements3);
          decomposition =
            (if r4 then [js ''If the story is too large, consider splitting it by acceptance criteria, or by sub-steps in the user's workflow. Each smaller story should still be valuable and testable.'']
             else []);
          r5 = (invest_score.score (testable investAnalysis) < INVEST_DEFAULT_HIGH);
          queries5 =
            (if r5 then queries4 @ [js ''Are the success conditions clear and testable? How would you verify this story is done?'']
             else queries4);
          improvements5 =
            (if r5 then improvements4 @ [js ''Improve testability: '' @ justification (testable investAnalysis)]
             else improvements4);
          r6 = (invest_score.score (independent investAnalysis) < INVEST_DEFAULT_MEDIUM);
          queries6 =
            (if r6 then queries5 @ [js ''Are there any hidden dependencies? Can this be developed independently?'']
             else queries5);
          improvements6 =
            (if r6 then improvements5 @ [js ''Clarify independence: '' @ justification (independent investAnalysis)]
             else improvements5)
      in \<lparr>queries = queries6,
          recommendations =
            \<lparr>suggestedImprovements =
               (if length improvements6 > 0 then join [10] improvements6
                else js ''Story is in good shape. No major improvements suggested.''),
             storyDecomposition = decomposition\<rparr>\<rparr>)\<close>

text \<open>
  \<^verbatim>\<open>generateEmptyReport\<close>. \<^verbatim>\<open>getReadinessCategory(0).label\<close> raises a \<^verbatim>\<open>TypeError\<close> when no
  band is found.
\<close>

definition generateEmptyReport :: "error + jsval" where
  "generateEmptyReport =
     (let emptySection = JObj [(''score'', JNum 0), (''feedback'', JStr (js ''No story provided.''))];
          emptyInvest = JObj [(''score'', JNum 0), (''justification'', JStr (js ''No story provided.''))]
      in case getReadinessCategory 0 of
           None \<Rightarrow> Inl TypeError
         | Some cat \<Rightarrow>
             Inr (JObj
               [(''overallReadinessScore'', JObj
                   [(''readinessRating'', JNum 0),
                    (''readinessCategory'', JStr (label cat)),
                    (''summary'', JStr (js ''Story is empty or missing. Please provide a user story.'')),
                    (''scoreBreakdown'', JObj
                       [(''clarityRequirementAnalysis'', JNum 0),
                        (''investCriteriaAssessment'', JNum 0)])]),
                (''clarityAndRequirementAnalysis'', JObj
                   [(''formatCheck'', emptySection),
                    (''clarityAmbiguity'', emptySection),
                    (''acceptanceCriteria'', emptySection)]),
                (''investCriteriaAssessment'', JObj
                   [(''independent'', emptyInvest),
                    (''negotiable'', emptyInvest),
                    (''valuable'', emptyInvest),
                    (''estimable'', emptyInvest),
                    (''small'', emptyInvest),
                    (''testable'', emptyInvest)]),
                (''outstandingQueriesAndConflicts'',
                   JArr [JStr (js ''What is the user story you would like to analyze?'')]),
                (''actionableRecommendations'', JObj
                   [(''suggestedImprovements'', JStr (js ''Please provide the user story text.'')),
                    (''storyDecomposition'', JArr [])])]))"

section \<open>The entry point\<close>

text \<open>The object literals of the analyses, field by field, as \<^verbatim>\<open>...analysis\<close> spreads them.\<close>

definition section_object :: "section_score \<Rightarrow> jsval" where
  "section_object s =
     JObj [(''score'', JNum (of_int (section_score.score s))), (''feedback'', JStr (feedback s))]"

definition invest_object :: "invest_score \<Rightarrow> jsval" where
  "invest_object s =
     JObj [(''score'', JNum (of_int (invest_score.score s))), (''justification'', JStr (justification s))]"

definition clarity_fields :: "clarity_analysis \<Rightarrow> (string \<times> jsval) list" where
  "clarity_fields a =
     [(''total'', JNum (of_int (clarity_analysis.total a))),
      (''formatCheck'', section_object (formatCheck a)),
      (''clarityAmbiguity'', section_object (clarityAmbiguity a)),
      (''acceptanceCriteria'', section_object (acceptanceCriteria a))]"

definition invest_fields :: "invest_analysis \<Rightarrow> (string \<times> jsval) list" where
  "invest_fields a =
     [(''total'', JNum (of_int (invest_analysis.total a))),
      (''independent'', invest_object (independent a)),
      (''negotiable'', invest_object (negotiable a)),
      (''valuable'', invest_object (valuable a)),
      (''estimable'', invest_object (estimable a)),
      (''small'', invest_object (small a)),
      (''testable'', invest_object (testable a))]"

text \<open>\<^verbatim>\<open>{...v}\<close> for an object \<open>v\<close>: its fields (the source spreads object literals only).\<close>

fun spread :: "jsval \<Rightarrow> (string \<times> jsval) list" where
  "spread (JObj fs) = fs"
| "spread v = []"

text \<open>
  \<^verbatim>\<open>!story || typeof story !== 'string' || story.trim() === ''\<close>: everything that is not
  a string takes the first or the second disjunct.
\<close>

fun story_missing :: "jsval \<Rightarrow> bool" where
  "story_missing (JStr s) = (\<not> truthy (JStr s) \<or> trim s = [])"
| "story_missing v = True"

text \<open>The local constant \<^verbatim>\<open>overallReadiness\<close>.\<close>

definition overallReadiness :: "int \<Rightarrow> category \<Rightarrow> clarity_analysis \<Rightarrow> invest_analysis \<Rightarrow> jsval" where
  "overallReadiness percentage categoryInfo clarityAnalysis investAnalysis =
     JObj [(''readinessRating'', JNum (of_int percentage)),
           (''readinessCategory'', JStr (label categoryInfo)),
           (''summary'', JStr (summary categoryInfo)),
           (''scoreBreakdown'', JObj
              [(''clarityRequirementAnalysis'', JNum (of_int (clarity_analysis.total clarityAnalysis))),
               (''investCriteriaAssessment'', JNum (of_int (invest_analysis.total investAnalysis)))])]"

text \<open>The object that the scoring path returns (lines 246 to 252).\<close>

definition full_report ::
  "jsval \<Rightarrow> clarity_analysis \<Rightarrow> invest_analysis \<Rightarrow> queries_and_recommendations \<Rightarrow> jsval" where
  "full_report overall clarityAnalysis investAnalysis qr =
     JObj [(''overallReadinessScore'', overall),
           (''clarityAndRequirementAnalysis'', JObj
              (clarity_fields clarityAnalysis
               @ [(''totalScore'', JNum (of_int (clarity_analysis.total clarityAnalysis)))])),
           (''investCriteriaAssessment'', JObj
              (invest_fields investAnalysis
               @ [(''totalScore'', JNum (of_int (invest_analysis.total investAnalysis)))])),
           (''outstandingQueriesAndConflicts'', JArr (map JStr (queries qr))),
           (''actionableRecommendations'', JObj
              [(''suggestedImprovements'', JStr (suggestedImprovements (recommendations qr))),
               (''storyDecomposition'', JArr (map JStr (storyDecomposition (recommendations qr))))])]"

text \<open>
  The scoring path of \<^verbatim>\<open>analyzeUserStory\<close>, lines 226 to 252. \<^verbatim>\<open>categoryInfo.label\<close> raises
  a \<^verbatim>\<open>TypeError\<close> when no band is found.
\<close>

definition score_story :: "jsstring \<Rightarrow> jsval \<Rightarrow> error + jsval" where
  "score_story story acceptanceCriteriaText =
     (case analyzeClarityAndRequirement story acceptanceCriteriaText of
        Inl e \<Rightarrow> Inl e
      | Inr clarityAnalysis \<Rightarrow>
     (case analyzeINVEST story acceptanceCriteriaText of
        Inl e \<Rightarrow> Inl e
      | Inr investAnalysis \<Rightarrow>
          (let totalPossibleScore = (40 + 60 :: int);
               actualScore = clarity_analysis.total clarityAnalysis + invest_analysis.total investAnalysis;
               percentage = js_round ((of_int actualScore / of_int totalPossibleScore) * 100)
           in case getReadinessCategory percentage of
                None \<Rightarrow> Inl TypeError
              | Some categoryInfo \<Rightarrow>
                  Inr (full_report
                         (overallReadiness percentage categoryInfo clarityAnalysis investAnalysis)
                         clarityAnalysis investAnalysis
                         (generateQueriesAndRecommendations story clarityAnalysis investAnalysis)))))"

text \<open>
  \<^verbatim>\<open>analyzeUserStory(story, acceptanceCriteriaText = "")\<close>: the default value replaces an
  argument that is \<^verbatim>\<open>undefined\<close>, and only that. The spread of the empty report follows
  the \<^verbatim>\<open>error\<close> field. A story that passes the guard is a string, so the last case is
  never taken.
\<close>

definition analyzeUserStory :: "jsval \<Rightarrow> jsval \<Rightarrow> error + jsval" where
  "analyzeUserStory story acceptanceCriteriaArg =
     (let acceptanceCriteriaText =
            (if acceptanceCriteriaArg = JUndefined then JStr [] else acceptanceCriteriaArg)
      in if story_missing story
         then (case generateEmptyReport of
                 Inl e \<Rightarrow> Inl e
               | Inr r \<Rightarrow>
                   Inr (JObj ((''error'', JStr (js ''Story is empty or missing. Please provide a user story to analyze.''))
                              # spread r)))
         else (case story of
                 JStr s \<Rightarrow> score_story s acceptanceCriteriaText
               | _ \<Rightarrow> Inl TypeError))"

section \<open>Reading a report\<close>

text \<open>A property path such as \<^verbatim>\<open>report.overallReadinessScore.readinessRating\<close>.\<close>

fun path :: "string list \<Rightarrow> jsval \<Rightarrow> jsval" where
  "path [] v = v"
| "path (k # ks) v = path ks (field k v)"

text \<open>The same on the result of a call: \<open>None\<close> when the call raised.\<close>

definition report_path :: "string list \<Rightarrow> error + jsval \<Rightarrow> jsval option" where
  "report_path ks res = (case res of Inl e \<Rightarrow> None | Inr r \<Rightarrow> Some (path ks r))"

text \<open>Whether every field along a property path is there.\<close>

fun has_path :: "string list \<Rightarrow> jsval \<Rightarrow> bool" where
  "has_path [] v = True"
| "has_path (k # ks) v = (has_field k v \<and> has_path ks (field k v))"

definition report_has :: "string list \<Rightarrow> error + jsval \<Rightarrow> bool" where
  "report_has ks res = (case res of Inl e \<Rightarrow> False | Inr r \<Rightarrow> has_path ks r)"

section \<open>The readiness classifier in the words of the specification\<close>

text \<open>
  The specification: select the first band, in descending order of threshold (90, 71,
  50, 0), whose threshold the percentage meets or exceeds.
\<close>

definition band :: "int \<Rightarrow> category option" where
  "band p =
     (if 90 \<le> p then Some (READINESS_CATEGORIES ! 0)
      else if 71 \<le> p then Some (READINESS_CATEGORIES ! 1)
      else if 50 \<le> p then Some (READINESS_CATEGORIES ! 2)
      else if 0 \<le> p then Some (READINESS_CATEGORIES ! 3)
      else None)"

section \<open>The story template in the words of the specification\<close>

text \<open>
  The specification describes the format check as: literally the words \<^verbatim>\<open>As a\<close> or
  \<^verbatim>\<open>As an\<close>, then a persona, then \<^verbatim>\<open>, I want \<close> and a goal, then \<^verbatim>\<open>, so that \<close> and a
  value, without regard to case. \<open>matches_template\<close> says this about a text directly,
  with no matcher: the text can be cut into these parts. A persona and a goal lie
  within one line; the value may be empty, so it and whatever follows are \<open>rest\<close>.
\<close>

definition same_letters :: "jsstring \<Rightarrow> jsstring \<Rightarrow> bool" where
  "same_letters a b = (map ascii_upper a = map ascii_upper b)"

definition one_line :: "jsstring \<Rightarrow> bool" where
  "one_line s = list_all (\<lambda>c. \<not> line_terminator c) s"

definition matches_template :: "jsstring \<Rightarrow> bool" where
  "matches_template story =
     (\<exists>before article persona want goal so_that rest.
        story = before @ article @ persona @ want @ goal @ so_that @ rest
        \<and> (same_letters article (js ''As a '') \<or> same_letters article (js ''As an ''))
        \<and> one_line persona
        \<and> same_letters want (js '', I want '')
        \<and> one_line goal
        \<and> same_letters so_that (js '', so that ''))"

section \<open>The engine on the store of the module\<close>

text \<open>
  Up to here the engine is a function of its two arguments. The module has one more
  thing that a call could read and write: the object \<^verbatim>\<open>CONFIG\<close>, whose fields JavaScript
  lets any code assign, and with it the \<^verbatim>\<open>lastIndex\<close> slot of the regular expression. To
  speak of state that a call might leave behind for the next one, the functions of the
  module are translated once more, now on a store that holds those fields: every
  \<^verbatim>\<open>CONFIG.X\<close> of the source reads the store, every function takes the store and gives
  back the store it leaves, and a call made inside a function hands its store on to the
  code that follows it. The source assigns to no field anywhere, so no store is updated
  below. \<^verbatim>\<open>String.prototype.match\<close> with a regular expression that has neither the flag
  \<^verbatim>\<open>g\<close> nor \<^verbatim>\<open>y\<close> starts at index 0 whatever \<^verbatim>\<open>lastIndex\<close> holds and, in the ECMAScript
  of the Node 18 that the README asks for, does not assign it; \<^verbatim>\<open>some\<close> and \<^verbatim>\<open>find\<close> leave
  the array of \<^verbatim>\<open>CONFIG\<close> that they run over as it is.
\<close>

record module_store =
  cfg_SHORT_STORY_LENGTH :: nat
  cfg_LONG_STORY_LENGTH :: nat
  cfg_MAX_ACCEPTANCE_CRITERIA :: nat
  cfg_AMBIGUOUS :: "jsstring list"
  cfg_DEPENDENCIES :: "jsstring list"
  cfg_TECHNICAL :: "jsstring list"
  cfg_TESTABLE_AC :: "jsstring list"
  cfg_FORMAT_SUCCESS :: int
  cfg_FORMAT_FAIL :: int
  cfg_CLARITY_BASE :: int
  cfg_CLARITY_BONUS_CONCISE :: int
  cfg_CLARITY_BONUS_SPECIFIC :: int
  cfg_AC_PROVIDED :: int
  cfg_AC_EMPTY :: int
  cfg_AC_MISSING :: int
  cfg_AC_NON_TESTABLE_DEDUCTION :: int
  cfg_INVEST_DEFAULT_HIGH :: int
  cfg_INVEST_DEFAULT_MEDIUM :: int
  cfg_INVEST_DEFAULT_LOW :: int
  cfg_READINESS_CATEGORIES :: "category list"
  regex_lastIndex :: nat

text \<open>The store when the module has been loaded: the literal of \<^verbatim>\<open>CONFIG\<close>.\<close>

definition CONFIG :: module_store where
  "CONFIG =
     \<lparr>cfg_SHORT_STORY_LENGTH = SHORT_STORY_LENGTH,
      cfg_LONG_STORY_LENGTH = LONG_STORY_LENGTH,
      cfg_MAX_ACCEPTANCE_CRITERIA = MAX_ACCEPTANCE_CRITERIA,
      cfg_AMBIGUOUS = AMBIGUOUS,
      cfg_DEPENDENCIES = DEPENDENCIES,
      cfg_TECHNICAL = TECHNICAL,
      cfg_TESTABLE_AC = TESTABLE_AC,
      cfg_FORMAT_SUCCESS = FORMAT_SUCCESS,
      cfg_FORMAT_FAIL = FORMAT_FAIL,
      cfg_CLARITY_BASE = CLARITY_BASE,
      cfg_CLARITY_BONUS_CONCISE = CLARITY_BONUS_CONCISE,
      cfg_CLARITY_BONUS_SPECIFIC = CLARITY_BONUS_SPECIFIC,
      cfg_AC_PROVIDED = AC_PROVIDED,
      cfg_AC_EMPTY = AC_EMPTY,
      cfg_AC_MISSING = AC_MISSING,
      cfg_AC_NON_TESTABLE_DEDUCTION = AC_NON_TESTABLE_DEDUCTION,
      cfg_INVEST_DEFAULT_HIGH = INVEST_DEFAULT_HIGH,
      cfg_INVEST_DEFAULT_MEDIUM = INVEST_DEFAULT_MEDIUM,
      cfg_INVEST_DEFAULT_LOW = INVEST_DEFAULT_LOW,
      cfg_READINESS_CATEGORIES = READINESS_CATEGORIES,
      regex_lastIndex = 0\<rparr>"

subsection \<open>Helper functions\<close>

definition getReadinessCategory_st :: "int \<Rightarrow> module_store \<Rightarrow> category option \<times> module_store" where
  "getReadinessCategory_st s \<sigma> =
     (find (\<lambda>cat. s \<ge> category.score cat) (cfg_READINESS_CATEGORIES \<sigma>), \<sigma>)"

definition isTestable_st :: "module_store \<Rightarrow> jsstring \<Rightarrow> bool" where
  "isTestable_st \<sigma> c = some_keyword (cfg_TESTABLE_AC \<sigma>) c"

definition count_criterion_st :: "module_store \<Rightarrow> jsstring \<Rightarrow> nat \<times> bool \<Rightarrow> nat \<times> bool" where
  "count_criterion_st \<sigma> c st =
     (case st of (nonTestable, found) \<Rightarrow>
        if \<not> isTestable_st \<sigma> c then (nonTestable + 1, found) else (nonTestable, True))"

definition analyzeAcceptanceCriteria_st ::
  "jsval \<Rightarrow> module_store \<Rightarrow> (error + ac_analysis) \<times> module_store" where
  "analyzeAcceptanceCriteria_st acceptanceCriteriaText \<sigma> =
     (if \<not> truthy acceptanceCriteriaText
      then (Inr \<lparr>criteria = [], testableKeywordsFound = False, nonTestableCount = 0\<rparr>, \<sigma>)
      else (case acceptanceCriteriaText of
              JStr s \<Rightarrow>
                if trim s = []
                then (Inr \<lparr>criteria = [], testableKeywordsFound = False, nonTestableCount = 0\<rparr>, \<sigma>)
                else
                  (let crit = filter (\<lambda>c. trim c \<noteq> []) (split_nl s);
                       counters = fold (count_criterion_st \<sigma>) crit (0, False)
                   in (Inr \<lparr>criteria = crit, testableKeywordsFound = snd counters,
                             nonTestableCount = fst counters\<rparr>, \<sigma>))
            | _ \<Rightarrow> (Inl TypeError, \<sigma>)))"

subsection \<open>\<^verbatim>\<open>analyzeClarityAndRequirement\<close>\<close>

definition formatScore_st :: "module_store \<Rightarrow> jsstring \<Rightarrow> int" where
  "formatScore_st \<sigma> story =
     (let formatMatch = STORY_FORMAT_REGEX story
      in if formatMatch \<noteq> None then cfg_FORMAT_SUCCESS \<sigma> else cfg_FORMAT_FAIL \<sigma>)"

definition hasAmbiguousTerms_st :: "module_store \<Rightarrow> jsstring \<Rightarrow> bool" where
  "hasAmbiguousTerms_st \<sigma> story = some_keyword (cfg_AMBIGUOUS \<sigma>) story"

definition clarityScore_st :: "module_store \<Rightarrow> jsstring \<Rightarrow> int" where
  "clarityScore_st \<sigma> story =
     (let clarityScore0 = cfg_CLARITY_BASE \<sigma>;
          clarityScore1 =
            (if length story < cfg_SHORT_STORY_LENGTH \<sigma> then clarityScore0
             else clarityScore0 + cfg_CLARITY_BONUS_CONCISE \<sigma>);
          clarityScore2 =
            (if hasAmbiguousTerms_st \<sigma> story then clarityScore1
             else clarityScore1 + cfg_CLARITY_BONUS_SPECIFIC \<sigma>)
      in clarityScore2)"

definition clarityFeedbackItems_st :: "module_store \<Rightarrow> jsstring \<Rightarrow> jsstring list" where
  "clarityFeedbackItems_st \<sigma> story =
     (let items0 = [];
          items1 =
            (if length story < cfg_SHORT_STORY_LENGTH \<sigma>
             then items0 @ [js ''Story seems very short, ensure it's sufficiently detailed.'']
             else items0);
          items2 =
            (if hasAmbiguousTerms_st \<sigma> story
             then items1 @ [js ''Avoid ambiguous terms like 'should', 'could', or 'might'. Be specific.'']
             else items1)
      in items2)"

definition clarityFinalScore_st :: "module_store \<Rightarrow> jsstring \<Rightarrow> int" where
  "clarityFinalScore_st \<sigma> story = min 15 (clarityScore_st \<sigma> story)"

definition clarityFinalFeedback_st :: "module_store \<Rightarrow> jsstring \<Rightarrow> jsstring" where
  "clarityFinalFeedback_st \<sigma> story =
     (if length (clarityFeedbackItems_st \<sigma> story) > 0 then join (js '' '') (clarityFeedbackItems_st \<sigma> story)
      else js ''Language appears reasonably clear.'')"

definition acScore_st :: "module_store \<Rightarrow> jsval \<Rightarrow> ac_analysis \<Rightarrow> int" where
  "acScore_st \<sigma> acceptanceCriteriaText acAnalysis =
     (let acScore0 = cfg_AC_MISSING \<sigma>
      in if truthy acceptanceCriteriaText
         then (if length (criteria acAnalysis) > 0
               then (let acScore1 = cfg_AC_PROVIDED \<sigma>
                     in if mostly_non_testable acAnalysis
                        then acScore1 - cfg_AC_NON_TESTABLE_DEDUCTION \<sigma>
                        else acScore1)
               else cfg_AC_EMPTY \<sigma>)
         else acScore0)"

text \<open>
  The format and clarity parts are computed before the call of
  \<^verbatim>\<open>analyzeAcceptanceCriteria\<close> and read the store \<open>\<sigma>\<close> of the entry; the
  acceptance-criteria part reads the store \<open>\<sigma>1\<close> that the call leaves.
\<close>

definition analyzeClarityAndRequirement_st ::
  "jsstring \<Rightarrow> jsval \<Rightarrow> module_store \<Rightarrow> (error + clarity_analysis) \<times> module_store" where
  "analyzeClarityAndRequirement_st story acceptanceCriteriaText \<sigma> =
     (case analyzeAcceptanceCriteria_st acceptanceCriteriaText \<sigma> of
        (Inl e, \<sigma>1) \<Rightarrow> (Inl e, \<sigma>1)
      | (Inr acAnalysis, \<sigma>1) \<Rightarrow>
          (Inr \<lparr>clarity_analysis.total = formatScore_st \<sigma> story + clarityFinalScore_st \<sigma> story
                    + acScore_st \<sigma>1 acceptanceCriteriaText acAnalysis,
                formatCheck =
                  \<lparr>section_score.score = formatScore_st \<sigma> story, feedback = formatFeedback story\<rparr>,
                clarityAmbiguity =
                  \<lparr>section_score.score = clarityFinalScore_st \<sigma> story,
                   feedback = clarityFinalFeedback_st \<sigma> story\<rparr>,
                acceptanceCriteria =
                  \<lparr>section_score.score = acScore_st \<sigma>1 acceptanceCriteriaText acAnalysis,
                   feedback = acFeedback acceptanceCriteriaText acAnalysis\<rparr>\<rparr>,
           \<sigma>1))"

subsection \<open>\<^verbatim>\<open>analyzeINVEST\<close>\<close>

definition hasDependencyKeywords_st :: "module_store \<Rightarrow> jsstring \<Rightarrow> bool" where
  "hasDependencyKeywords_st \<sigma> story = some_keyword (cfg_DEPENDENCIES \<sigma>) story"

definition independent_I_st :: "module_store \<Rightarrow> jsstring \<Rightarrow> invest_score" where
  "independent_I_st \<sigma> story =
     \<lparr>score = (if hasDependencyKeywords_st \<sigma> story then cfg_INVEST_DEFAULT_LOW \<sigma> else cfg_INVEST_DEFAULT_MEDIUM \<sigma>),
      justification =
        (if hasDependencyKeywords_st \<sigma> story
         then js ''Story may have dependencies based on keywords. Clarify if it can be worked on without external blockers.''
         else js ''Assumed to be developable independently. Review for hidden dependencies.'')\<rparr>"

definition hasTechnicalTerms_st :: "module_store \<Rightarrow> jsstring \<Rightarrow> bool" where
  "hasTechnicalTerms_st \<sigma> story = some_keyword (cfg_TECHNICAL \<sigma>) story"

definition negotiable_N_st :: "module_store \<Rightarrow> jsstring \<Rightarrow> invest_score" where
  "negotiable_N_st \<sigma> story =
     \<lparr>score = (if hasTechnicalTerms_st \<sigma> story then cfg_INVEST_DEFAULT_LOW \<sigma> else cfg_INVEST_DEFAULT_HIGH \<sigma>),
      justification =
        (if hasTechnicalTerms_st \<sigma> story
         then js ''Story might be too prescriptive with technical details. Focus on user needs, not implementation.''
         else js ''Story seems to describe 'what' not 'how', allowing for implementation discussion.'')\<rparr>"

definition valuable_V_st :: "module_store \<Rightarrow> jsstring \<Rightarrow> invest_score" where
  "valuable_V_st \<sigma> story =
     (let formatMatch = STORY_FORMAT_REGEX story
      in \<lparr>score = (if hasClearValue formatMatch then 10 else cfg_INVEST_DEFAULT_LOW \<sigma>),
          justification =
            (case formatMatch of
               Some m \<Rightarrow>
                 if hasClearValue formatMatch
                 then js ''Value proposition '' @ [39] @ group3 m @ [39] @ js '' seems clear.''
                 else js ''The 'so that [value]' part of the story is missing or unclear. State the benefit to the user or business.''
             | None \<Rightarrow> js ''The 'so that [value]' part of the story is missing or unclear. State the benefit to the user or business.'')\<rparr>)"

definition isEstimable_st :: "module_store \<Rightarrow> jsstring \<Rightarrow> ac_analysis \<Rightarrow> bool" where
  "isEstimable_st \<sigma> story acAnalysis =
     (length (criteria acAnalysis) > 0 \<and> length story > cfg_SHORT_STORY_LENGTH \<sigma>)"

definition estimable_E_st :: "module_store \<Rightarrow> jsstring \<Rightarrow> ac_analysis \<Rightarrow> invest_score" where
  "estimable_E_st \<sigma> story acAnalysis =
     \<lparr>score = (if isEstimable_st \<sigma> story acAnalysis then cfg_INVEST_DEFAULT_HIGH \<sigma> else cfg_INVEST_DEFAULT_MEDIUM \<sigma>),
      justification =
        (if isEstimable_st \<sigma> story acAnalysis
         then js ''Story and ACs provide a solid basis for estimation.''
         else js ''Story or ACs may be too vague or missing, making estimation difficult. Please provide more detail.'')\<rparr>"

definition isLarge_st :: "module_store \<Rightarrow> jsstring \<Rightarrow> ac_analysis \<Rightarrow> bool" where
  "isLarge_st \<sigma> story acAnalysis =
     (length story > cfg_LONG_STORY_LENGTH \<sigma> \<or> length (criteria acAnalysis) > cfg_MAX_ACCEPTANCE_CRITERIA \<sigma>)"

definition small_S_st :: "module_store \<Rightarrow> jsstring \<Rightarrow> ac_analysis \<Rightarrow> invest_score" where
  "small_S_st \<sigma> story acAnalysis =
     \<lparr>score = (if isLarge_st \<sigma> story acAnalysis then cfg_INVEST_DEFAULT_LOW \<sigma> else cfg_INVEST_DEFAULT_HIGH \<sigma>),
      justification =
        (if isLarge_st \<sigma> story acAnalysis
         then js ''Story or number of ACs seems large. Consider if it can be broken down into smaller, valuable pieces.''
         else js ''Story appears to be a reasonable size, likely completable within a single sprint.'')\<rparr>"

definition testableScore_st :: "module_store \<Rightarrow> ac_analysis \<Rightarrow> int" where
  "testableScore_st \<sigma> acAnalysis =
     (let testableScore0 = cfg_INVEST_DEFAULT_LOW \<sigma>
      in if length (criteria acAnalysis) > 0
         then (if testableKeywordsFound acAnalysis then cfg_INVEST_DEFAULT_HIGH \<sigma>
               else cfg_INVEST_DEFAULT_MEDIUM \<sigma>)
         else testableScore0)"

definition testable_T_st :: "module_store \<Rightarrow> ac_analysis \<Rightarrow> invest_score" where
  "testable_T_st \<sigma> acAnalysis =
     \<lparr>score = testableScore_st \<sigma> acAnalysis, justification = testableJustification acAnalysis\<rparr>"

definition analyzeINVEST_st ::
  "jsstring \<Rightarrow> jsval \<Rightarrow> module_store \<Rightarrow> (error + invest_analysis) \<times> module_store" where
  "analyzeINVEST_st story acceptanceCriteriaText \<sigma> =
     (case analyzeAcceptanceCriteria_st acceptanceCriteriaText \<sigma> of
        (Inl e, \<sigma>1) \<Rightarrow> (Inl e, \<sigma>1)
      | (Inr acAnalysis, \<sigma>1) \<Rightarrow>
          (Inr \<lparr>total = invest_score.score (independent_I_st \<sigma>1 story)
                    + invest_score.score (negotiable_N_st \<sigma>1 story)
                    + invest_score.score (valuable_V_st \<sigma>1 story)
                    + invest_score.score (estimable_E_st \<sigma>1 story acAnalysis)
                    + invest_score.score (small_S_st \<sigma>1 story acAnalysis)
                    + invest_score.score (testable_T_st \<sigma>1 acAnalysis),
                independent = independent_I_st \<sigma>1 story,
                negotiable = negotiable_N_st \<sigma>1 story,
                valuable = valuable_V_st \<sigma>1 story,
                estimable = estimable_E_st \<sigma>1 story acAnalysis,
                small = small_S_st \<sigma>1 story acAnalysis,
                testable = testable_T_st \<sigma>1 acAnalysis\<rparr>,
           \<sigma>1))"

subsection \<open>Reporting and the entry point\<close>

definition generateQueriesAndRecommendations_st ::
  "jsstring \<Rightarrow> clarity_analysis \<Rightarrow> invest_analysis \<Rightarrow> module_store
     \<Rightarrow> queries_and_recommendations \<times> module_store" where
  \<open>generateQueriesAndRecommendations_st story clarityAnalysis investAnalysis \<sigma> =
     (let improvements1 =
            (if section_score.score (formatCheck clarityAnalysis) < cfg_FORMAT_SUCCESS \<sigma>
             then [js ''Rephrase story to fit the standard format: "As a [persona], I want [goal], so that [value]".'']
             else []);
          r2 = (section_score.score (acceptanceCriteria clarityAnalysis) < cfg_AC_PROVIDED \<sigma>);
          queries2 =
            (if r2 then [js ''Could you provide or refine the acceptance criteria to be more specific and testable?'']
             else []);
          improvements2 =
            (if r2 then improvements1 @ [js ''Refine ACs: '' @ feedback (acceptanceCriteria clarityAnalysis)]
             else improvements1);
          r3 = (invest_score.score (valuable investAnalysis) < 10);
          queries3 =
            (if r3 then queries2 @ [js ''What is the specific value or benefit this story delivers?'']
             else queries2);
          improvements3 =
            (if r3 then improvements2 @ [js ''Clarify value: '' @ justification (valuable investAnalysis)]
             else improvements2);
          r4 = (invest_score.score (small investAnalysis) < cfg_INVEST_DEFAULT_HIGH \<sigma>);
          queries4 =
            (if r4 then queries3 @ [js ''Is this story small enough for one sprint? If not, how can it be split?'']
             else queries3);
          improvements4 =
            (if r4 then improvements3 @ [js ''Consider story size: '' @ justification (small investAnalysis)]
             else improvements3);
          decomposition =
            (if r4 then [js ''If the story is too large, consider splitting it by acceptance criteria, or by sub-steps in the user's workflow. Each smaller story should still be valuable and testable.'']
             else []);
          r5 = (invest_score.score (testable investAnalysis) < cfg_INVEST_DEFAULT_HIGH \<sigma>);
          queries5 =
            (if r5 then queries4 @ [js ''Are the success conditions clear and testable? How would you verify this story is done?'']
             else queries4);
          improvements5 =
            (if r5 then improvements4 @ [js ''Improve testability: '' @ justification (testable investAnalysis)]
             else improvements4);
          r6 = (invest_score.score (independent investAnalysis) < cfg_INVEST_DEFAULT_MEDIUM \<sigma>);
          queries6 =
            (if r6 then queries5 @ [js ''Are there any hidden dependencies? Can this be developed independently?'']
             else queries5);
          improvements6 =
            (if r6 then improvements5 @ [js ''Clarify independence: '' @ justification (independent investAnalysis)]
             else improvements5)
      in (\<lparr>queries = queries6,
          recommendations =
            \<lparr>suggestedImprovements =
               (if length improvements6 > 0 then join [10] improvements6
                else js ''Story is in good shape. No major improvements suggested.''),
             storyDecomposition = decomposition\<rparr>\<rparr>,
          \<sigma>))\<close>

definition generateEmptyReport_st :: "module_store \<Rightarrow> (error + jsval) \<times> module_store" where
  "generateEmptyReport_st \<sigma> =
     (let emptySection = JObj [(''score'', JNum 0), (''feedback'', JStr (js ''No story provided.''))];
          emptyInvest = JObj [(''score'', JNum 0), (''justification'', JStr (js ''No story provided.''))]
      in case getReadinessCategory_st 0 \<sigma> of
           (None, \<sigma>1) \<Rightarrow> (Inl TypeError, \<sigma>1)
         | (Some cat, \<sigma>1) \<Rightarrow>
             (Inr (JObj
               [(''overallReadinessScore'', JObj
                   [(''readinessRating'', JNum 0),
                    (''readinessCategory'', JStr (label cat)),
                    (''summary'', JStr (js ''Story is empty or missing. Please provide a user story.'')),
                    (''scoreBreakdown'', JObj
                       [(''clarityRequirementAnalysis'', JNum 0),
                        (''investCriteriaAssessment'', JNum 0)])]),
                (''clarityAndRequirementAnalysis'', JObj
                   [(''formatCheck'', emptySection),
                    (''clarityAmbiguity'', emptySection),
                    (''acceptanceCriteria'', emptySection)]),
                (''investCriteriaAssessment'', JObj
                   [(''independent'', emptyInvest),
                    (''negotiable'', emptyInvest),
                    (''valuable'', emptyInvest),
                    (''estimable'', emptyInvest),
                    (''small'', emptyInvest),
                    (''testable'', emptyInvest)]),
                (''outstandingQueriesAndConflicts'',
                   JArr [JStr (js ''What is the user story you would like to analyze?'')]),
                (''actionableRecommendations'', JObj
                   [(''suggestedImprovements'', JStr (js ''Please provide the user story text.'')),
                    (''storyDecomposition'', JArr [])])]),
              \<sigma>1))"

definition score_story_st :: "jsstring \<Rightarrow> jsval \<Rightarrow> module_store \<Rightarrow> (error + jsval) \<times> module_store" where
  "score_story_st story acceptanceCriteriaText \<sigma> =
     (case analyzeClarityAndRequirement_st story acceptanceCriteriaText \<sigma> of
        (Inl e, \<sigma>1) \<Rightarrow> (Inl e, \<sigma>1)
      | (Inr clarityAnalysis, \<sigma>1) \<Rightarrow>
     (case analyzeINVEST_st story acceptanceCriteriaText \<sigma>1 of
        (Inl e, \<sigma>2) \<Rightarrow> (Inl e, \<sigma>2)
      | (Inr investAnalysis, \<sigma>2) \<Rightarrow>
          (let totalPossibleScore = (40 + 60 :: int);
               actualScore = clarity_analysis.total clarityAnalysis + invest_analysis.total investAnalysis;
               percentage = js_round ((of_int actualScore / of_int totalPossibleScore) * 100)
           in case getReadinessCategory_st percentage \<sigma>2 of
                (None, \<sigma>3) \<Rightarrow> (Inl TypeError, \<sigma>3)
              | (Some categoryInfo, \<sigma>3) \<Rightarrow>
                  (case generateQueriesAndRecommendations_st story clarityAnalysis investAnalysis \<sigma>3 of
                     (qr, \<sigma>4) \<Rightarrow>
                       (Inr (full_report
                               (overallReadiness percentage categoryInfo clarityAnalysis investAnalysis)
                               clarityAnalysis investAnalysis qr),
                        \<sigma>4)))))"

definition analyzeUserStory_st :: "jsval \<Rightarrow> jsval \<Rightarrow> module_store \<Rightarrow> (error + jsval) \<times> module_store" where
  "analyzeUserStory_st story acceptanceCriteriaArg \<sigma> =
     (let acceptanceCriteriaText =
            (if acceptanceCriteriaArg = JUndefined then JStr [] else acceptanceCriteriaArg)
      in if story_missing story
         then (case generateEmptyReport_st \<sigma> of
                 (Inl e, \<sigma>1) \<Rightarrow> (Inl e, \<sigma>1)
               | (Inr r, \<sigma>1) \<Rightarrow>
                   (Inr (JObj ((''error'', JStr (js ''Story is empty or missing. Please provide a user story to analyze.''))
                               # spread r)),
                    \<sigma>1))
         else (case story of
                 JStr s \<Rightarrow> score_story_st s acceptanceCriteriaText \<sigma>
               | _ \<Rightarrow> (Inl TypeError, \<sigma>)))"

section \<open>The format matcher meets its description\<close>

lemma literal_iff: "literal p s = Some r \<longleftrightarrow> (\<exists>a. s = a @ r \<and> same_letters a p)"
proof (induction p s rule: literal.induct)
  case (1 s)
  then show ?case by (auto simp: same_letters_def)
next
  case (2 p ps)
  then show ?case by (auto simp: same_letters_def)
next
  case (3 p ps c cs)
  show ?case
  proof (cases "ascii_upper c = ascii_upper p")
    case True
    have "(\<exists>a. c # cs = a @ r \<and> same_letters a (p # ps)) \<longleftrightarrow> (\<exists>a. cs = a @ r \<and> same_letters a ps)"
      using True by (auto simp: same_letters_def Cons_eq_append_conv map_eq_Cons_conv)
    with 3 True show ?thesis by simp
  next
    case False
    then show ?thesis
      by (auto simp: same_letters_def Cons_eq_append_conv map_eq_Cons_conv)
  qed
qed

lemma literal_None_iff: "literal p s \<noteq> None \<longleftrightarrow> (\<exists>a r. s = a @ r \<and> same_letters a p)"
  using literal_iff [of p s] by (cases "literal p s") auto

lemma backtrack_iff: "backtrack n s k \<noteq> None \<longleftrightarrow> (\<exists>m\<le>n. k (take m s) (drop m s) \<noteq> None)"
proof (induction n)
  case 0
  then show ?case by simp
next
  case (Suc n)
  show ?case
  proof (cases "k (take (Suc n) s) (drop (Suc n) s)")
    case None
    then have "(\<exists>m\<le>Suc n. k (take m s) (drop m s) \<noteq> None) \<longleftrightarrow> (\<exists>m\<le>n. k (take m s) (drop m s) \<noteq> None)"
      by (metis le_Suc_eq)
    with Suc None show ?thesis by simp
  next
    case (Some a)
    then show ?thesis by auto
  qed
qed

lemma literal_then:
  "(case literal p s of None \<Rightarrow> None | Some r \<Rightarrow> f r) \<noteq> None
     \<longleftrightarrow> (\<exists>a r. s = a @ r \<and> same_letters a p \<and> f r \<noteq> None)"
proof (cases "literal p s")
  case None
  then have "\<not> (\<exists>a r. s = a @ r \<and> same_letters a p)"
    using literal_None_iff [of p s] by simp
  with None show ?thesis by auto
next
  case (Some r0)
  have "\<And>a r. s = a @ r \<Longrightarrow> same_letters a p \<Longrightarrow> r = r0"
  proof -
    fix a r assume "s = a @ r" "same_letters a p"
    then have "literal p s = Some r" using literal_iff [of p s r] by blast
    with Some show "r = r0" by simp
  qed
  moreover obtain a0 where "s = a0 @ r0" "same_letters a0 p"
    using Some literal_iff [of p s r0] by blast
  ultimately have "(\<exists>a r. s = a @ r \<and> same_letters a p \<and> f r \<noteq> None) \<longleftrightarrow> f r0 \<noteq> None"
    by blast
  with Some show ?thesis by simp
qed

lemma dot_star_iff:
  "dot_star s k \<noteq> None \<longleftrightarrow> (\<exists>p r. s = p @ r \<and> one_line p \<and> k p r \<noteq> None)"
proof
  assume "dot_star s k \<noteq> None"
  then obtain m where m: "m \<le> length (dot_run s)" "k (take m s) (drop m s) \<noteq> None"
    unfolding dot_star_def backtrack_iff by blast
  have "s = dot_run s @ dropWhile (\<lambda>c. \<not> line_terminator c) s"
    by (simp add: dot_run_def)
  then have "take m s = take m (dot_run s @ dropWhile (\<lambda>c. \<not> line_terminator c) s)"
    by simp
  also have "\<dots> = take m (dot_run s)"
    using m(1) by simp
  finally have "set (take m s) \<subseteq> set (dot_run s)"
    by (simp add: set_take_subset)
  then have "one_line (take m s)"
    unfolding one_line_def dot_run_def list_all_iff by (auto dest: set_takeWhileD)
  moreover have "s = take m s @ drop m s" by simp
  ultimately show "\<exists>p r. s = p @ r \<and> one_line p \<and> k p r \<noteq> None"
    using m(2) by blast
next
  assume "\<exists>p r. s = p @ r \<and> one_line p \<and> k p r \<noteq> None"
  then obtain p r where pr: "s = p @ r" "one_line p" "k p r \<noteq> None" by blast
  have "dot_run s = p @ dot_run r"
    using pr(1,2) unfolding dot_run_def one_line_def list_all_iff by (simp add: takeWhile_append2)
  then have "length p \<le> length (dot_run s)" by simp
  moreover have "k (take (length p) s) (drop (length p) s) \<noteq> None"
    using pr by simp
  ultimately show "dot_star s k \<noteq> None"
    unfolding dot_star_def backtrack_iff by blast
qed

lemma match_value_iff:
  "match_value s \<noteq> None \<longleftrightarrow> (\<exists>a r. s = a @ r \<and> same_letters a (js '', so that ''))"
  unfolding match_value_def
  using literal_then [where p = "js '', so that ''" and s = s and f = "\<lambda>r. Some (dot_run r)"]
  by simp

lemma match_goal_iff:
  "match_goal s \<noteq> None \<longleftrightarrow>
     (\<exists>w g a r. s = w @ g @ a @ r \<and> same_letters w (js '', I want '') \<and> one_line g
        \<and> same_letters a (js '', so that ''))"
proof -
  have "match_goal s \<noteq> None \<longleftrightarrow>
     (\<exists>w r0. s = w @ r0 \<and> same_letters w (js '', I want '')
        \<and> (\<exists>g r1. r0 = g @ r1 \<and> one_line g
              \<and> (\<exists>a r. r1 = a @ r \<and> same_letters a (js '', so that ''))))"
    unfolding match_goal_def literal_then dot_star_iff map_option_is_None match_value_iff
    by (rule refl)
  also have "\<dots> \<longleftrightarrow> (\<exists>w g a r. s = w @ g @ a @ r \<and> same_letters w (js '', I want '') \<and> one_line g
        \<and> same_letters a (js '', so that ''))"
    by blast
  finally show ?thesis .
qed

lemma match_persona_iff:
  "match_persona s \<noteq> None \<longleftrightarrow>
     (\<exists>sp p w g a r. s = sp @ p @ w @ g @ a @ r \<and> same_letters sp (js '' '') \<and> one_line p
        \<and> same_letters w (js '', I want '') \<and> one_line g \<and> same_letters a (js '', so that ''))"
proof -
  have "match_persona s \<noteq> None \<longleftrightarrow>
     (\<exists>sp r0. s = sp @ r0 \<and> same_letters sp (js '' '')
        \<and> (\<exists>p r1. r0 = p @ r1 \<and> one_line p \<and> match_goal r1 \<noteq> None))"
    unfolding match_persona_def literal_then dot_star_iff map_option_is_None
    by (rule refl)
  also have "\<dots> \<longleftrightarrow> (\<exists>sp p r1. s = sp @ p @ r1 \<and> same_letters sp (js '' '') \<and> one_line p
        \<and> match_goal r1 \<noteq> None)"
    by blast
  also have "\<dots> \<longleftrightarrow> (\<exists>sp p w g a r. s = sp @ p @ w @ g @ a @ r \<and> same_letters sp (js '' '') \<and> one_line p
        \<and> same_letters w (js '', I want '') \<and> one_line g \<and> same_letters a (js '', so that ''))"
    unfolding match_goal_iff by blast
  finally show ?thesis .
qed


lemma append_letters:
  "same_letters a p \<Longrightarrow> same_letters b q \<Longrightarrow> same_letters (a @ b) (p @ q)"
  by (simp add: same_letters_def)

lemma split_letters:
  "same_letters x (p @ q) \<Longrightarrow> \<exists>a b. x = a @ b \<and> same_letters a p \<and> same_letters b q"
  unfolding same_letters_def by (fastforce simp: map_eq_append_conv)

lemma match_here_iff:
  "match_here s \<noteq> None \<longleftrightarrow>
     (\<exists>art r. s = art @ r \<and> (same_letters art (js ''As a'') \<or> same_letters art (js ''As an''))
        \<and> match_persona r \<noteq> None)"
proof -
  let ?f = "\<lambda>r. (case literal (js ''n'') r of
             None \<Rightarrow> match_persona r
           | Some r' \<Rightarrow> (case match_persona r' of Some m \<Rightarrow> Some m | None \<Rightarrow> match_persona r))"
  have f: "?f r \<noteq> None \<longleftrightarrow>
      match_persona r \<noteq> None \<or> (\<exists>n r'. r = n @ r' \<and> same_letters n (js ''n'') \<and> match_persona r' \<noteq> None)"
    for r
  proof (cases "literal (js ''n'') r")
    case None
    then have "\<not> (\<exists>n r'. r = n @ r' \<and> same_letters n (js ''n''))"
      using literal_None_iff [of "js ''n''" r] by simp
    with None show ?thesis by auto
  next
    case (Some r0)
    have "\<And>n r'. r = n @ r' \<Longrightarrow> same_letters n (js ''n'') \<Longrightarrow> r' = r0"
    proof -
      fix n r' assume "r = n @ r'" "same_letters n (js ''n'')"
      then have "literal (js ''n'') r = Some r'" using literal_iff [of "js ''n''" r r'] by blast
      with Some show "r' = r0" by simp
    qed
    moreover obtain n0 where "r = n0 @ r0" "same_letters n0 (js ''n'')"
      using Some literal_iff [of "js ''n''" r r0] by blast
    ultimately have "(\<exists>n r'. r = n @ r' \<and> same_letters n (js ''n'') \<and> match_persona r' \<noteq> None)
        \<longleftrightarrow> match_persona r0 \<noteq> None"
      by blast
    with Some show ?thesis by (cases "match_persona r0") auto
  qed
  have "match_here s \<noteq> None \<longleftrightarrow>
      (\<exists>a r. s = a @ r \<and> same_letters a (js ''As a'') \<and> ?f r \<noteq> None)"
    unfolding match_here_def by (rule literal_then)
  also have "\<dots> \<longleftrightarrow> (\<exists>a r. s = a @ r \<and> same_letters a (js ''As a'')
      \<and> (match_persona r \<noteq> None
          \<or> (\<exists>n r'. r = n @ r' \<and> same_letters n (js ''n'') \<and> match_persona r' \<noteq> None)))"
    unfolding f by (rule refl)
  also have "\<dots> \<longleftrightarrow> (\<exists>art r. s = art @ r
      \<and> (same_letters art (js ''As a'') \<or> same_letters art (js ''As an''))
      \<and> match_persona r \<noteq> None)" (is "?L \<longleftrightarrow> ?R")
  proof
    assume ?L
    then obtain a r where ar: "s = a @ r" "same_letters a (js ''As a'')"
      and d: "match_persona r \<noteq> None
          \<or> (\<exists>n r'. r = n @ r' \<and> same_letters n (js ''n'') \<and> match_persona r' \<noteq> None)"
      by blast
    from d show ?R
    proof
      assume "match_persona r \<noteq> None"
      with ar show ?R by blast
    next
      assume "\<exists>n r'. r = n @ r' \<and> same_letters n (js ''n'') \<and> match_persona r' \<noteq> None"
      then obtain n r' where n: "r = n @ r'" "same_letters n (js ''n'')" "match_persona r' \<noteq> None"
        by blast
      have "same_letters (a @ n) (js ''As a'' @ js ''n'')"
        using ar(2) n(2) by (rule append_letters)
      then have "same_letters (a @ n) (js ''As an'')" by (simp add: js_def)
      moreover have "s = (a @ n) @ r'" using ar(1) n(1) by simp
      ultimately show ?R using n(3) by blast
    qed
  next
    assume ?R
    then obtain art r where r: "s = art @ r" "match_persona r \<noteq> None"
      and d: "same_letters art (js ''As a'') \<or> same_letters art (js ''As an'')"
      by blast
    from d show ?L
    proof
      assume "same_letters art (js ''As a'')"
      with r show ?L by blast
    next
      assume "same_letters art (js ''As an'')"
      then have "same_letters art (js ''As a'' @ js ''n'')" by (simp add: js_def)
      then obtain a n where an: "art = a @ n" "same_letters a (js ''As a'')" "same_letters n (js ''n'')"
        using split_letters by blast
      then have "s = a @ (n @ r)" using r(1) by simp
      with an r(2) show ?L by blast
    qed
  qed
  finally show ?thesis .
qed

lemma regex_iff:
  "STORY_FORMAT_REGEX s \<noteq> None \<longleftrightarrow> (\<exists>before r. s = before @ r \<and> match_here r \<noteq> None)"
proof (induction s)
  case Nil
  then show ?case by simp
next
  case (Cons c cs)
  show ?case
  proof (cases "match_here (c # cs)")
    case None
    have "(\<exists>before r. c # cs = before @ r \<and> match_here r \<noteq> None)
        \<longleftrightarrow> (\<exists>before r. cs = before @ r \<and> match_here r \<noteq> None)"
    proof
      assume "\<exists>before r. c # cs = before @ r \<and> match_here r \<noteq> None"
      then obtain before r where b: "c # cs = before @ r" "match_here r \<noteq> None" by blast
      with None have "before \<noteq> []" by auto
      then obtain b' where "before = c # b'" "cs = b' @ r"
        using b(1) by (cases before) auto
      with b(2) show "\<exists>before r. cs = before @ r \<and> match_here r \<noteq> None" by blast
    next
      assume "\<exists>before r. cs = before @ r \<and> match_here r \<noteq> None"
      then obtain before r where "cs = before @ r" "match_here r \<noteq> None" by blast
      then have "c # cs = (c # before) @ r" by simp
      with \<open>match_here r \<noteq> None\<close> show "\<exists>before r. c # cs = before @ r \<and> match_here r \<noteq> None"
        by blast
    qed
    with Cons None show ?thesis by simp
  next
    case (Some m)
    then have "c # cs = [] @ (c # cs) \<and> match_here (c # cs) \<noteq> None" by simp
    then have "\<exists>before r. c # cs = before @ r \<and> match_here r \<noteq> None" by blast
    with Some show ?thesis by simp
  qed
qed

lemma regex_matches_template: "STORY_FORMAT_REGEX s \<noteq> None \<longleftrightarrow> matches_template s"
proof
  assume "STORY_FORMAT_REGEX s \<noteq> None"
  then obtain before r where br: "s = before @ r" "match_here r \<noteq> None"
    unfolding regex_iff by blast
  then obtain art r1 where a: "r = art @ r1" "match_persona r1 \<noteq> None"
    and d: "same_letters art (js ''As a'') \<or> same_letters art (js ''As an'')"
    unfolding match_here_iff by blast
  from a(2) obtain sp p w g t rest where
    m: "r1 = sp @ p @ w @ g @ t @ rest" "same_letters sp (js '' '')" "one_line p"
       "same_letters w (js '', I want '')" "one_line g" "same_letters t (js '', so that '')"
    unfolding match_persona_iff by blast
  have "same_letters (art @ sp) (js ''As a '') \<or> same_letters (art @ sp) (js ''As an '')"
    using d append_letters [OF _ m(2), of art "js ''As a''"] append_letters [OF _ m(2), of art "js ''As an''"]
    by (auto simp: js_def)
  moreover have "s = before @ (art @ sp) @ p @ w @ g @ t @ rest"
    using br(1) a(1) m(1) by simp
  ultimately show "matches_template s"
    unfolding matches_template_def using m(3-6) by blast
next
  assume "matches_template s"
  then obtain before article persona want goal so_that rest where
    s: "s = before @ article @ persona @ want @ goal @ so_that @ rest"
    and d: "same_letters article (js ''As a '') \<or> same_letters article (js ''As an '')"
    and m: "one_line persona" "same_letters want (js '', I want '')" "one_line goal"
       "same_letters so_that (js '', so that '')"
    unfolding matches_template_def by blast
  have "\<exists>art sp. article = art @ sp \<and> same_letters sp (js '' '')
      \<and> (same_letters art (js ''As a'') \<or> same_letters art (js ''As an''))"
  proof -
    from d have "same_letters article (js ''As a'' @ js '' '') \<or> same_letters article (js ''As an'' @ js '' '')"
      by (simp add: js_def)
    then show ?thesis using split_letters by blast
  qed
  then obtain art sp where a: "article = art @ sp" "same_letters sp (js '' '')"
      "same_letters art (js ''As a'') \<or> same_letters art (js ''As an'')"
    by blast
  have "match_persona (sp @ persona @ want @ goal @ so_that @ rest) \<noteq> None"
    unfolding match_persona_iff using a(2) m by blast
  then have "match_here (art @ sp @ persona @ want @ goal @ so_that @ rest) \<noteq> None"
    unfolding match_here_iff using a(3) by blast
  moreover have "s = before @ (art @ sp @ persona @ want @ goal @ so_that @ rest)"
    using s a(1) by simp
  ultimately show "STORY_FORMAT_REGEX s \<noteq> None"
    unfolding regex_iff by blast
qed

section \<open>Ranges of the sub-scores\<close>

lemmas scoring_defs = FORMAT_SUCCESS_def FORMAT_FAIL_def CLARITY_BASE_def CLARITY_BONUS_CONCISE_def
  CLARITY_BONUS_SPECIFIC_def AC_PROVIDED_def AC_EMPTY_def AC_MISSING_def AC_NON_TESTABLE_DEDUCTION_def
  INVEST_DEFAULT_HIGH_def INVEST_DEFAULT_MEDIUM_def INVEST_DEFAULT_LOW_def

lemma ac_text_ok: "\<exists>x. analyzeAcceptanceCriteria (JStr a) = Inr x"
  by (simp add: analyzeAcceptanceCriteria_def Let_def)

lemma formatScore_cases: "formatScore s = (if STORY_FORMAT_REGEX s \<noteq> None then 10 else 2)"
  by (simp add: formatScore_def scoring_defs)

lemma clarityFinalScore_cases: "clarityFinalScore s = (if length s < 25 \<and> hasAmbiguousTerms s then 10 else 15)"
  by (simp add: clarityFinalScore_def clarityScore_def scoring_defs SHORT_STORY_LENGTH_def)

lemma acScore_range: "acScore v x \<in> {0, 5, 10, 15}"
  by (simp add: acScore_def scoring_defs)

lemma clarity_total_bounds:
  "12 \<le> formatScore s + clarityFinalScore s + acScore v x
   \<and> formatScore s + clarityFinalScore s + acScore v x \<le> 40"
  using acScore_range [of v x] by (auto simp add: formatScore_cases clarityFinalScore_cases)

lemma independent_le: "invest_score.score (independent_I s) = 3 \<or> invest_score.score (independent_I s) = 6"
  by (simp add: independent_I_def scoring_defs)

lemma negotiable_le: "invest_score.score (negotiable_N s) = 3 \<or> invest_score.score (negotiable_N s) = 8"
  by (simp add: negotiable_N_def scoring_defs)

lemma valuable_le: "invest_score.score (valuable_V s) = 3 \<or> invest_score.score (valuable_V s) = 10"
  by (simp add: valuable_V_def scoring_defs Let_def)

lemma estimable_le: "invest_score.score (estimable_E s x) = 6 \<or> invest_score.score (estimable_E s x) = 8"
  by (simp add: estimable_E_def scoring_defs)

lemma small_le: "invest_score.score (small_S s x) = 3 \<or> invest_score.score (small_S s x) = 8"
  by (simp add: small_S_def scoring_defs)

lemma testable_le: "invest_score.score (testable_T x) \<in> {3, 6, 8}"
  by (simp add: testable_T_def testableScore_def scoring_defs)

lemma invest_total_bounds:
  fixes s x
  defines "t \<equiv> invest_score.score (independent_I s) + invest_score.score (negotiable_N s)
     + invest_score.score (valuable_V s) + invest_score.score (estimable_E s x)
     + invest_score.score (small_S s x) + invest_score.score (testable_T x)"
  shows "21 \<le> t \<and> t \<le> 48"
  using independent_le [of s] negotiable_le [of s] valuable_le [of s] estimable_le [of s x]
    small_le [of s x] testable_le [of x]
  unfolding t_def by auto

lemma js_round_percentage: "js_round ((of_int a / of_int (40 + 60)) * 100) = a"
  by (simp add: js_round_def) linarith

lemma getReadinessCategory_band: "getReadinessCategory p = band p"
  by (simp add: getReadinessCategory_def band_def READINESS_CATEGORIES_def)

section \<open>The report of the entry point\<close>

lemma analyses_ok:
  assumes "analyzeAcceptanceCriteria v = Inr x"
  shows "\<exists>ca ia. analyzeClarityAndRequirement s v = Inr ca \<and> analyzeINVEST s v = Inr ia
     \<and> 12 \<le> clarity_analysis.total ca \<and> clarity_analysis.total ca \<le> 40
     \<and> 21 \<le> invest_analysis.total ia \<and> invest_analysis.total ia \<le> 48
     \<and> section_score.score (formatCheck ca) = formatScore s
     \<and> invest_score.score (independent ia) \<le> 6"
  using assms clarity_total_bounds [of s v x] invest_total_bounds [of s x] independent_le [of s]
  by (auto simp add: analyzeClarityAndRequirement_def analyzeINVEST_def)

lemma score_story_eq:
  assumes "analyzeClarityAndRequirement s v = Inr ca" "analyzeINVEST s v = Inr ia"
    and "band (clarity_analysis.total ca + invest_analysis.total ia) = Some cat"
  shows "score_story s v =
     Inr (full_report
            (overallReadiness (clarity_analysis.total ca + invest_analysis.total ia) cat ca ia)
            ca ia (generateQueriesAndRecommendations s ca ia))"
proof -
  let ?p = "clarity_analysis.total ca + invest_analysis.total ia"
  have pct: "js_round ((of_int ?p / of_int (40 + 60)) * 100) = ?p"
    by (rule js_round_percentage)
  have cat: "getReadinessCategory ?p = Some cat"
    using assms(3) by (simp add: getReadinessCategory_band)
  show ?thesis
    unfolding score_story_def assms(1,2)
    by (simp only: sum.case Let_def pct cat option.case)
qed

lemma report_paths:
  fixes p cat ca ia qr
  defines "r \<equiv> full_report (overallReadiness p cat ca ia) ca ia qr"
  shows "path [''overallReadinessScore'', ''readinessRating''] r = JNum (of_int p)"
    and "path [''overallReadinessScore'', ''readinessCategory''] r = JStr (label cat)"
    and "path [''overallReadinessScore'', ''summary''] r = JStr (summary cat)"
    and "path [''overallReadinessScore'', ''scoreBreakdown'', ''clarityRequirementAnalysis''] r
           = JNum (of_int (clarity_analysis.total ca))"
    and "path [''overallReadinessScore'', ''scoreBreakdown'', ''investCriteriaAssessment''] r
           = JNum (of_int (invest_analysis.total ia))"
    and "path [''clarityAndRequirementAnalysis'', ''totalScore''] r = JNum (of_int (clarity_analysis.total ca))"
    and "path [''investCriteriaAssessment'', ''totalScore''] r = JNum (of_int (invest_analysis.total ia))"
    and "path [''clarityAndRequirementAnalysis'', ''formatCheck'', ''score''] r
           = JNum (of_int (section_score.score (formatCheck ca)))"
    and "path [''clarityAndRequirementAnalysis'', ''acceptanceCriteria'', ''score''] r
           = JNum (of_int (section_score.score (acceptanceCriteria ca)))"
    and "path [''clarityAndRequirementAnalysis'', ''acceptanceCriteria'', ''feedback''] r
           = JStr (feedback (acceptanceCriteria ca))"
    and "path [''investCriteriaAssessment'', ''independent'', ''score''] r
           = JNum (of_int (invest_score.score (independent ia)))"
    and "path [''investCriteriaAssessment'', ''negotiable'', ''score''] r
           = JNum (of_int (invest_score.score (negotiable ia)))"
    and "path [''investCriteriaAssessment'', ''valuable'', ''score''] r
           = JNum (of_int (invest_score.score (valuable ia)))"
    and "path [''investCriteriaAssessment'', ''estimable'', ''score''] r
           = JNum (of_int (invest_score.score (estimable ia)))"
    and "path [''investCriteriaAssessment'', ''small'', ''score''] r
           = JNum (of_int (invest_score.score (small ia)))"
    and "path [''investCriteriaAssessment'', ''testable'', ''score''] r
           = JNum (of_int (invest_score.score (testable ia)))"
  unfolding r_def
  by (simp_all add: full_report_def overallReadiness_def clarity_fields_def invest_fields_def
      section_object_def invest_object_def)

lemma band_0: "band 0 = Some (READINESS_CATEGORIES ! 3)"
  by (simp add: band_def)

lemma generateEmptyReport_eq:
  "generateEmptyReport = Inr (JObj
     [(''overallReadinessScore'', JObj
         [(''readinessRating'', JNum 0),
          (''readinessCategory'', JStr (label (READINESS_CATEGORIES ! 3))),
          (''summary'', JStr (js ''Story is empty or missing. Please provide a user story.'')),
          (''scoreBreakdown'', JObj
             [(''clarityRequirementAnalysis'', JNum 0),
              (''investCriteriaAssessment'', JNum 0)])]),
      (''clarityAndRequirementAnalysis'', JObj
         [(''formatCheck'', JObj [(''score'', JNum 0), (''feedback'', JStr (js ''No story provided.''))]),
          (''clarityAmbiguity'', JObj [(''score'', JNum 0), (''feedback'', JStr (js ''No story provided.''))]),
          (''acceptanceCriteria'', JObj [(''score'', JNum 0), (''feedback'', JStr (js ''No story provided.''))])]),
      (''investCriteriaAssessment'', JObj
         [(''independent'', JObj [(''score'', JNum 0), (''justification'', JStr (js ''No story provided.''))]),
          (''negotiable'', JObj [(''score'', JNum 0), (''justification'', JStr (js ''No story provided.''))]),
          (''valuable'', JObj [(''score'', JNum 0), (''justification'', JStr (js ''No story provided.''))]),
          (''estimable'', JObj [(''score'', JNum 0), (''justification'', JStr (js ''No story provided.''))]),
          (''small'', JObj [(''score'', JNum 0), (''justification'', JStr (js ''No story provided.''))]),
          (''testable'', JObj [(''score'', JNum 0), (''justification'', JStr (js ''No story provided.''))])]),
      (''outstandingQueriesAndConflicts'',
         JArr [JStr (js ''What is the user story you would like to analyze?'')]),
      (''actionableRecommendations'', JObj
         [(''suggestedImprovements'', JStr (js ''Please provide the user story text.'')),
          (''storyDecomposition'', JArr [])])])"
  unfolding generateEmptyReport_def Let_def getReadinessCategory_band band_0
  by (simp only: option.case)

lemma empty_paths:
  assumes "story_missing story"
  shows "report_path [''overallReadinessScore'', ''readinessRating''] (analyzeUserStory story ac) = Some (JNum 0)"
    and "report_path [''overallReadinessScore'', ''readinessCategory''] (analyzeUserStory story ac)
           = Some (JStr (label (READINESS_CATEGORIES ! 3)))"
    and "report_path [''outstandingQueriesAndConflicts''] (analyzeUserStory story ac)
           = Some (JArr [JStr (js ''What is the user story you would like to analyze?'')])"
    and "report_path [''overallReadinessScore'', ''scoreBreakdown'', ''clarityRequirementAnalysis''] (analyzeUserStory story ac) = Some (JNum 0)"
    and "report_path [''clarityAndRequirementAnalysis'', ''formatCheck'', ''score''] (analyzeUserStory story ac) = Some (JNum 0)"
    and "report_path [''clarityAndRequirementAnalysis'', ''totalScore''] (analyzeUserStory story ac) = Some JUndefined"
    and "report_path [''investCriteriaAssessment'', ''totalScore''] (analyzeUserStory story ac) = Some JUndefined"
  using assms
  by (simp_all add: analyzeUserStory_def generateEmptyReport_eq report_path_def Let_def)

lemma missing_independent_of_ac:
  assumes "story_missing story"
  shows "analyzeUserStory story ac = analyzeUserStory story ac'"
  using assms by (simp add: analyzeUserStory_def Let_def)

lemma trim_Nil: "trim [] = []"
  by (simp add: trim_def)

lemma story_missing_iff: "story_missing story \<longleftrightarrow> (\<forall>s. story = JStr s \<longrightarrow> trim s = [])"
  by (cases story) (auto simp: trim_Nil)

lemma scoring_path:
  assumes "trim s \<noteq> []"
  shows "analyzeUserStory (JStr s) (JStr a) = score_story s (JStr a)"
  using assms by (auto simp add: analyzeUserStory_def trim_Nil)

lemma js_round_of_int: "js_round (of_int a) = a"
  by (simp add: js_round_def) linarith

lemma score_story_Inl:
  assumes "analyzeAcceptanceCriteria v = Inl e"
  shows "score_story s v = Inl e"
  using assms by (simp add: score_story_def analyzeClarityAndRequirement_def)

lemma score_story_Inr:
  assumes x: "analyzeAcceptanceCriteria v = Inr x"
  shows "\<exists>ca ia cat.
       analyzeClarityAndRequirement s v = Inr ca \<and> analyzeINVEST s v = Inr ia
     \<and> band (clarity_analysis.total ca + invest_analysis.total ia) = Some cat
     \<and> score_story s v
          = Inr (full_report
              (overallReadiness (clarity_analysis.total ca + invest_analysis.total ia) cat ca ia)
              ca ia (generateQueriesAndRecommendations s ca ia))
     \<and> 12 \<le> clarity_analysis.total ca \<and> clarity_analysis.total ca \<le> 40
     \<and> 21 \<le> invest_analysis.total ia \<and> invest_analysis.total ia \<le> 48
     \<and> section_score.score (formatCheck ca) = formatScore s
     \<and> invest_score.score (independent ia) \<le> 6"
proof -
  from analyses_ok [OF x, of s] obtain ca ia where
    c: "analyzeClarityAndRequirement s v = Inr ca" "analyzeINVEST s v = Inr ia"
       "12 \<le> clarity_analysis.total ca" "clarity_analysis.total ca \<le> 40"
       "21 \<le> invest_analysis.total ia" "invest_analysis.total ia \<le> 48"
       "section_score.score (formatCheck ca) = formatScore s"
       "invest_score.score (independent ia) \<le> 6"
    by blast
  let ?p = "clarity_analysis.total ca + invest_analysis.total ia"
  have "0 \<le> ?p" using c(3,5) by simp
  then have "\<exists>cat. band ?p = Some cat"
    by (simp add: band_def)
  then obtain cat where cat: "band ?p = Some cat" ..
  have "score_story s v
      = Inr (full_report (overallReadiness ?p cat ca ia) ca ia (generateQueriesAndRecommendations s ca ia))"
    using score_story_eq [OF c(1,2) cat] .
  with c cat show ?thesis by blast
qed

lemma scored_report:
  assumes "trim s \<noteq> []"
  shows "\<exists>ca ia cat.
       analyzeClarityAndRequirement s (JStr a) = Inr ca \<and> analyzeINVEST s (JStr a) = Inr ia
     \<and> band (clarity_analysis.total ca + invest_analysis.total ia) = Some cat
     \<and> analyzeUserStory (JStr s) (JStr a)
          = Inr (full_report
              (overallReadiness (clarity_analysis.total ca + invest_analysis.total ia) cat ca ia)
              ca ia (generateQueriesAndRecommendations s ca ia))
     \<and> 12 \<le> clarity_analysis.total ca \<and> clarity_analysis.total ca \<le> 40
     \<and> 21 \<le> invest_analysis.total ia \<and> invest_analysis.total ia \<le> 48
     \<and> section_score.score (formatCheck ca) = formatScore s
     \<and> invest_score.score (independent ia) \<le> 6"
proof -
  obtain x where x: "analyzeAcceptanceCriteria (JStr a) = Inr x"
    using ac_text_ok by blast
  show ?thesis
    using score_story_Inr [OF x, of s] unfolding scoring_path [OF assms, of a] .
qed

lemma missing_report:
  assumes "story_missing story"
  shows "\<exists>r. analyzeUserStory story ac = Inr r"
  using assms by (simp add: analyzeUserStory_def generateEmptyReport_eq Let_def)

lemma band_label:
  assumes "band p = Some cat" "p \<le> 88"
  shows "label cat \<noteq> label (READINESS_CATEGORIES ! 0)"
  using assms by (auto simp add: band_def READINESS_CATEGORIES_def split: if_splits)

lemma band_member:
  assumes "band p = Some cat"
  shows "cat \<in> set READINESS_CATEGORIES"
  using assms by (auto simp add: band_def READINESS_CATEGORIES_def split: if_splits)

lemma story_cases: "story_missing story \<or> (\<exists>s. story = JStr s \<and> trim s \<noteq> [])"
  by (cases story) (auto simp: trim_Nil)

lemma analyzeUserStory_text:
  assumes "trim s \<noteq> []"
  shows "analyzeUserStory (JStr s) ac = score_story s (if ac = JUndefined then JStr [] else ac)"
  using assms by (auto simp add: analyzeUserStory_def trim_Nil Let_def)


lemma formatScore_template: "formatScore s = (if matches_template s then 10 else 2)"
  unfolding formatScore_cases regex_matches_template ..

section \<open>Evaluating the engine on given texts\<close>

text \<open>The definitions that the simplifier unfolds to run the string functions on a literal.\<close>

lemmas text_defs = js_def trim_def js_whitespace_def toLowerCase_def lower_unit_def some_keyword_def
  ascii_upper_def line_terminator_def dot_run_def dot_star_def

lemmas match_defs = match_here_def match_persona_def match_goal_def match_value_def

lemmas keyword_defs = AMBIGUOUS_def DEPENDENCIES_def TECHNICAL_def TESTABLE_AC_def
  SHORT_STORY_LENGTH_def LONG_STORY_LENGTH_def MAX_ACCEPTANCE_CRITERIA_def

lemma no_criteria:
  "analyzeAcceptanceCriteria (JStr []) = Inr \<lparr>criteria = [], testableKeywordsFound = False, nonTestableCount = 0\<rparr>"
  by (simp add: analyzeAcceptanceCriteria_def)

lemma blank_missing: "story_missing (JStr (js '' ''))"
  by (simp add: text_defs)

lemma Login_trim: "trim (js ''Login'') \<noteq> []"
  by (simp add: text_defs)

lemma full_report_shape:
  fixes p cat ca ia qr
  defines "r \<equiv> full_report (overallReadiness p cat ca ia) ca ia qr"
  shows "has_path [''clarityAndRequirementAnalysis'', ''totalScore''] r"
    and "has_path [''investCriteriaAssessment'', ''totalScore''] r"
  unfolding r_def
  by (simp_all add: full_report_def overallReadiness_def clarity_fields_def invest_fields_def)

section \<open>Ranges of the totals\<close>

text \<open>
  C1 as it is written fails. The story that is a single space is not empty, yet the
  engine takes it for a missing story: the clarity total of the score breakdown is 0,
  outside [12, 40], and the clarity section of the report has no total at all.
\<close>

theorem C1_counterexample:
  "js '' '' \<noteq> []
   \<and> report_path [''overallReadinessScore'', ''scoreBreakdown'', ''clarityRequirementAnalysis'']
        (analyzeUserStory (JStr (js '' '')) (JStr [])) = Some (JNum 0)
   \<and> report_path [''clarityAndRequirementAnalysis'', ''totalScore'']
        (analyzeUserStory (JStr (js '' '')) (JStr [])) = Some JUndefined"
  using empty_paths(4,6) [OF blank_missing, of "JStr []"] by (simp add: js_def)

text \<open>
  C1, as amended. For every story text that still has a character after trimming, and
  every acceptance-criteria text, the report carries a clarity total \<open>c\<close> in [12, 40]
  and an INVEST total \<open>i\<close> in [18, 60], each both as the \<^verbatim>\<open>totalScore\<close> of its section
  and in the score breakdown, and the readiness rating is
  \<^verbatim>\<open>round(100 * (c + i) / 100)\<close>, which lies in [0, 100].
\<close>

theorem C1_score_ranges:
  assumes "trim story \<noteq> []"
  shows "\<exists>c i.
       report_path [''clarityAndRequirementAnalysis'', ''totalScore'']
         (analyzeUserStory (JStr story) (JStr ac)) = Some (JNum (of_int c))
     \<and> report_path [''overallReadinessScore'', ''scoreBreakdown'', ''clarityRequirementAnalysis'']
         (analyzeUserStory (JStr story) (JStr ac)) = Some (JNum (of_int c))
     \<and> 12 \<le> c \<and> c \<le> 40
     \<and> report_path [''investCriteriaAssessment'', ''totalScore'']
         (analyzeUserStory (JStr story) (JStr ac)) = Some (JNum (of_int i))
     \<and> report_path [''overallReadinessScore'', ''scoreBreakdown'', ''investCriteriaAssessment'']
         (analyzeUserStory (JStr story) (JStr ac)) = Some (JNum (of_int i))
     \<and> 18 \<le> i \<and> i \<le> 60
     \<and> report_path [''overallReadinessScore'', ''readinessRating'']
         (analyzeUserStory (JStr story) (JStr ac))
           = Some (JNum (of_int (js_round (100 * (of_int c + of_int i) / 100))))
     \<and> 0 \<le> js_round (100 * (of_int c + of_int i) / 100)
     \<and> js_round (100 * (of_int c + of_int i) / 100) \<le> 100"
proof -
  from scored_report [OF assms, of ac] obtain ca ia cat where
    r: "analyzeUserStory (JStr story) (JStr ac)
          = Inr (full_report
              (overallReadiness (clarity_analysis.total ca + invest_analysis.total ia) cat ca ia)
              ca ia (generateQueriesAndRecommendations story ca ia))"
    and b: "12 \<le> clarity_analysis.total ca" "clarity_analysis.total ca \<le> 40"
       "21 \<le> invest_analysis.total ia" "invest_analysis.total ia \<le> 48"
    by blast
  let ?c = "clarity_analysis.total ca" and ?i = "invest_analysis.total ia"
  have "100 * (of_int ?c + of_int ?i) / 100 = (of_int (?c + ?i) :: rat)"
    by simp
  then have rd: "js_round (100 * (of_int ?c + of_int ?i) / 100) = ?c + ?i"
    by (simp only: js_round_of_int)
  show ?thesis
    apply (rule exI [of _ ?c], rule exI [of _ ?i])
    unfolding rd r report_path_def sum.case
    using b by (simp only: report_paths) simp
qed

theorem C1_witness:
  "trim (js ''Login'') \<noteq> []
   \<and> (\<exists>c i. report_path [''clarityAndRequirementAnalysis'', ''totalScore'']
                (analyzeUserStory (JStr (js ''Login'')) (JStr [])) = Some (JNum (of_int c))
          \<and> 12 \<le> c \<and> c \<le> 40
          \<and> report_path [''investCriteriaAssessment'', ''totalScore'']
                (analyzeUserStory (JStr (js ''Login'')) (JStr [])) = Some (JNum (of_int i))
          \<and> 18 \<le> i \<and> i \<le> 60)"
  using Login_trim C1_score_ranges [OF Login_trim, of "[]"] by blast

section \<open>The example of the specification\<close>

text \<open>
  C2. For the story "As a user, I want to reset my password, so that I can regain
  access to my account" with empty acceptance criteria the engine returns a report
  with format sub-score 10, acceptance-criteria sub-score 0 with the feedback that the
  criteria are missing, valuable 10, independent 6, negotiable 8, testable 3, small 8,
  estimable 6, INVEST total 41, clarity total 25, readiness rating 66 and the
  "Requires Improvement" category.
\<close>

theorem C2_password_example:
  "\<exists>r. analyzeUserStory
          (JStr (js ''As a user, I want to reset my password, so that I can regain access to my account''))
          (JStr []) = Inr r
     \<and> path [''clarityAndRequirementAnalysis'', ''formatCheck'', ''score''] r = JNum 10
     \<and> path [''clarityAndRequirementAnalysis'', ''acceptanceCriteria'', ''score''] r = JNum 0
     \<and> path [''clarityAndRequirementAnalysis'', ''acceptanceCriteria'', ''feedback''] r
          = JStr (js ''Acceptance criteria are missing. Clear, testable ACs are essential. Consider using the 'Given/When/Then' format.'')
     \<and> path [''investCriteriaAssessment'', ''valuable'', ''score''] r = JNum 10
     \<and> path [''investCriteriaAssessment'', ''independent'', ''score''] r = JNum 6
     \<and> path [''investCriteriaAssessment'', ''negotiable'', ''score''] r = JNum 8
     \<and> path [''investCriteriaAssessment'', ''testable'', ''score''] r = JNum 3
     \<and> path [''investCriteriaAssessment'', ''small'', ''score''] r = JNum 8
     \<and> path [''investCriteriaAssessment'', ''estimable'', ''score''] r = JNum 6
     \<and> path [''investCriteriaAssessment'', ''totalScore''] r = JNum 41
     \<and> path [''clarityAndRequirementAnalysis'', ''totalScore''] r = JNum 25
     \<and> path [''overallReadinessScore'', ''readinessRating''] r = JNum 66
     \<and> path [''overallReadinessScore'', ''readinessCategory''] r
          = JStr ([10071] @ js '' Requires Improvement '' @ [8211] @ js '' Needs Refinement'')"
proof -
  define S where "S = js ''As a user, I want to reset my password, so that I can regain access to my account''"
  define X where "X = \<lparr>criteria = [], testableKeywordsFound = False, nonTestableCount = 0\<rparr>"
  have x: "analyzeAcceptanceCriteria (JStr []) = Inr X"
    unfolding X_def by (rule no_criteria)
  have len: "length S = 81"
    by (simp add: S_def js_def)
  have m: "STORY_FORMAT_REGEX S = Some \<lparr>group1 = js ''user'', group2 = js ''to reset my password'',
      group3 = js ''I can regain access to my account''\<rparr>"
    by (simp add: S_def text_defs match_defs)
  have t: "trim S \<noteq> []"
    by (simp add: S_def text_defs)
  have f: "formatScore S = 10"
    by (simp add: formatScore_cases m)
  have amb: "\<not> hasAmbiguousTerms S"
    by (simp add: hasAmbiguousTerms_def S_def text_defs keyword_defs)
  have cl: "clarityFinalScore S = 15"
    by (simp add: clarityFinalScore_cases len)
  have acs: "acScore (JStr []) X = 0"
    by (simp add: acScore_def scoring_defs)
  have acf: "acFeedback (JStr []) X
      = js ''Acceptance criteria are missing. Clear, testable ACs are essential. Consider using the 'Given/When/Then' format.''"
    by (simp add: acFeedback_def)
  have dep: "\<not> hasDependencyKeywords S"
    by (simp add: hasDependencyKeywords_def S_def text_defs keyword_defs)
  have tech: "\<not> hasTechnicalTerms S"
    by (simp add: hasTechnicalTerms_def S_def text_defs keyword_defs)
  have i: "invest_score.score (independent_I S) = 6"
    by (simp add: independent_I_def dep scoring_defs)
  have n: "invest_score.score (negotiable_N S) = 8"
    by (simp add: negotiable_N_def tech scoring_defs)
  have v: "invest_score.score (valuable_V S) = 10"
    by (simp add: valuable_V_def m hasClearValue_def text_defs)
  have e: "invest_score.score (estimable_E S X) = 6"
    by (simp add: estimable_E_def isEstimable_def X_def scoring_defs)
  have s: "invest_score.score (small_S S X) = 8"
    by (simp add: small_S_def isLarge_def X_def len keyword_defs scoring_defs)
  have te: "invest_score.score (testable_T X) = 3"
    by (simp add: testable_T_def testableScore_def X_def scoring_defs)
  define ca where "ca = \<lparr>clarity_analysis.total = formatScore S + clarityFinalScore S + acScore (JStr []) X,
      formatCheck = \<lparr>section_score.score = formatScore S, feedback = formatFeedback S\<rparr>,
      clarityAmbiguity = \<lparr>section_score.score = clarityFinalScore S, feedback = clarityFinalFeedback S\<rparr>,
      acceptanceCriteria = \<lparr>section_score.score = acScore (JStr []) X, feedback = acFeedback (JStr []) X\<rparr>\<rparr>"
  define ia where "ia = \<lparr>total = invest_score.score (independent_I S)
          + invest_score.score (negotiable_N S) + invest_score.score (valuable_V S)
          + invest_score.score (estimable_E S X) + invest_score.score (small_S S X)
          + invest_score.score (testable_T X),
      independent = independent_I S, negotiable = negotiable_N S, valuable = valuable_V S,
      estimable = estimable_E S X, small = small_S S X, testable = testable_T X\<rparr>"
  have ca: "analyzeClarityAndRequirement S (JStr []) = Inr ca"
    by (simp add: analyzeClarityAndRequirement_def x ca_def)
  have ia: "analyzeINVEST S (JStr []) = Inr ia"
    by (simp add: analyzeINVEST_def x ia_def)
  have tc: "clarity_analysis.total ca = 25"
    by (simp add: ca_def f cl acs)
  have ti: "invest_analysis.total ia = 41"
    by (simp add: ia_def i n v e s te)
  have b: "band (clarity_analysis.total ca + invest_analysis.total ia) = Some (READINESS_CATEGORIES ! 2)"
    by (simp add: tc ti band_def)
  have l: "label (READINESS_CATEGORIES ! 2)
      = [10071] @ js '' Requires Improvement '' @ [8211] @ js '' Needs Refinement''"
    by (simp add: READINESS_CATEGORIES_def)
  have r: "analyzeUserStory (JStr S) (JStr [])
      = Inr (full_report
          (overallReadiness (clarity_analysis.total ca + invest_analysis.total ia)
             (READINESS_CATEGORIES ! 2) ca ia)
          ca ia (generateQueriesAndRecommendations S ca ia))"
    using scoring_path [OF t, of "[]"] score_story_eq [OF ca ia b] by simp
  show ?thesis
    unfolding S_def [symmetric]
    apply (rule exI, rule conjI, rule r)
    unfolding report_paths l tc ti
    by (simp add: ca_def ia_def f acs acf i n v e s te)
qed

theorem C2_witness:
  "\<exists>r. analyzeUserStory
          (JStr (js ''As a user, I want to reset my password, so that I can regain access to my account''))
          (JStr []) = Inr r
     \<and> path [''overallReadinessScore'', ''readinessRating''] r = JNum 66"
  using C2_password_example by blast

section \<open>Empty input\<close>

text \<open>
  C3. When the story argument is missing, is not a string, or is a string that is empty
  after trimming, the engine returns the fixed empty report: readiness rating 0, the
  "Not Ready" category, and exactly one outstanding query, which asks for the story.
  The acceptance criteria (any value \<open>ac\<close>, against any other value \<open>ac'\<close>) have no
  effect on the result.
\<close>

theorem C3_empty_story_report:
  assumes "\<And>s. story = JStr s \<Longrightarrow> trim s = []"
  shows "report_path [''overallReadinessScore'', ''readinessRating''] (analyzeUserStory story ac)
           = Some (JNum 0)
     \<and> report_path [''overallReadinessScore'', ''readinessCategory''] (analyzeUserStory story ac)
           = Some (JStr ([55357, 57003] @ js '' Not Ready '' @ [8211] @ js '' Fundamentally Incomplete''))
     \<and> report_path [''outstandingQueriesAndConflicts''] (analyzeUserStory story ac)
           = Some (JArr [JStr (js ''What is the user story you would like to analyze?'')])
     \<and> analyzeUserStory story ac = analyzeUserStory story ac'"
proof -
  have m: "story_missing story"
    using assms by (simp add: story_missing_iff)
  have l: "label (READINESS_CATEGORIES ! 3)
      = [55357, 57003] @ js '' Not Ready '' @ [8211] @ js '' Fundamentally Incomplete''"
    by (simp add: READINESS_CATEGORIES_def)
  show ?thesis
    using empty_paths(1-3) [OF m, of ac] missing_independent_of_ac [OF m, of ac ac']
    by (simp only: l simp_thms)
qed

theorem C3_witness:
  "trim [32, 9, 10] = []
   \<and> report_path [''overallReadinessScore'', ''readinessRating'']
        (analyzeUserStory (JStr [32, 9, 10]) (JStr (js ''Given X''))) = Some (JNum 0)
   \<and> report_path [''outstandingQueriesAndConflicts'']
        (analyzeUserStory (JStr [32, 9, 10]) (JStr (js ''Given X'')))
        = Some (JArr [JStr (js ''What is the user story you would like to analyze?'')])
   \<and> analyzeUserStory (JStr [32, 9, 10]) (JStr (js ''Given X''))
        = analyzeUserStory (JStr [32, 9, 10]) JUndefined"
proof -
  have t: "trim [32, 9, 10] = []"
    by (simp add: trim_def js_whitespace_def)
  have h: "\<And>s. JStr [32, 9, 10] = JStr s \<Longrightarrow> trim s = []"
    using t by simp
  show ?thesis
    using t C3_empty_story_report [of "JStr [32, 9, 10]" "JStr (js ''Given X'')" JUndefined, OF h]
    by blast
qed

section \<open>The highest band is out of reach\<close>

text \<open>
  C4. The independent sub-score is never more than 6 and the INVEST total never more
  than 48. Whatever the two arguments are, a report that the engine returns has a
  readiness rating of at most 88, and its readiness category is never the label of the
  band from 90 upwards ("Excellent \<dots> Ready for Development").
\<close>

theorem C4_rating_at_most_88:
  "(\<forall>ia. analyzeINVEST s ac = Inr ia \<longrightarrow>
       invest_score.score (independent ia) \<le> 6 \<and> invest_analysis.total ia \<le> 48)
   \<and> (\<forall>r. analyzeUserStory story ac = Inr r \<longrightarrow>
         (\<exists>p. path [''overallReadinessScore'', ''readinessRating''] r = JNum (of_int p) \<and> p \<le> 88)
         \<and> path [''overallReadinessScore'', ''readinessCategory''] r
              \<noteq> JStr ([9989] @ js '' Excellent '' @ [8211] @ js '' Ready for Development''))"
proof (intro conjI allI impI)
  fix ia assume ia: "analyzeINVEST s ac = Inr ia"
  then obtain x where x: "analyzeAcceptanceCriteria ac = Inr x"
    by (cases "analyzeAcceptanceCriteria ac") (auto simp: analyzeINVEST_def)
  from analyses_ok [OF x, of s] ia
  show "invest_score.score (independent ia) \<le> 6" and "invest_analysis.total ia \<le> 48"
    by auto
next
  fix r assume r: "analyzeUserStory story ac = Inr r"
  have l0: "label (READINESS_CATEGORIES ! 0)
      = [9989] @ js '' Excellent '' @ [8211] @ js '' Ready for Development''"
    by (simp add: READINESS_CATEGORIES_def)
  have "(\<exists>p. path [''overallReadinessScore'', ''readinessRating''] r = JNum (of_int p) \<and> p \<le> 88)
      \<and> path [''overallReadinessScore'', ''readinessCategory''] r \<noteq> JStr (label (READINESS_CATEGORIES ! 0))"
  proof -
    consider (missing) "story_missing story" | (scored) s0 where "story = JStr s0" "trim s0 \<noteq> []"
      using story_cases by blast
    then show ?thesis
    proof cases
    case missing
    have "path [''overallReadinessScore'', ''readinessRating''] r = JNum (of_int 0)"
      using empty_paths(1) [OF missing, of ac] r by (simp add: report_path_def)
    moreover have "path [''overallReadinessScore'', ''readinessCategory''] r
        = JStr (label (READINESS_CATEGORIES ! 3))"
      using empty_paths(2) [OF missing, of ac] r by (simp add: report_path_def)
    moreover have "label (READINESS_CATEGORIES ! 3) \<noteq> label (READINESS_CATEGORIES ! 0)"
      by (simp add: READINESS_CATEGORIES_def)
    ultimately show ?thesis by force
  next
    case scored
    let ?v = "if ac = JUndefined then JStr [] else ac"
    have sc: "score_story s0 ?v = Inr r"
      using r analyzeUserStory_text [OF scored(2), of ac] scored(1) by simp
    then obtain x where x: "analyzeAcceptanceCriteria ?v = Inr x"
      using score_story_Inl [of ?v _ s0] by (cases "analyzeAcceptanceCriteria ?v") auto
    from score_story_Inr [OF x, of s0] sc obtain ca ia cat where
      c: "band (clarity_analysis.total ca + invest_analysis.total ia) = Some cat"
         "r = full_report
              (overallReadiness (clarity_analysis.total ca + invest_analysis.total ia) cat ca ia)
              ca ia (generateQueriesAndRecommendations s0 ca ia)"
         "clarity_analysis.total ca \<le> 40" "invest_analysis.total ia \<le> 48"
      by auto
    have le: "clarity_analysis.total ca + invest_analysis.total ia \<le> 88"
      using c(3,4) by simp
    show ?thesis
      unfolding c(2) report_paths using le band_label [OF c(1) le] by blast
  qed
  qed
  then show "\<exists>p. path [''overallReadinessScore'', ''readinessRating''] r = JNum (of_int p) \<and> p \<le> 88"
    and "path [''overallReadinessScore'', ''readinessCategory''] r
              \<noteq> JStr ([9989] @ js '' Excellent '' @ [8211] @ js '' Ready for Development'')"
    unfolding l0 by blast+
qed

theorem C4_witness:
  "\<exists>ia r. analyzeINVEST (js ''Login'') (JStr []) = Inr ia
     \<and> invest_score.score (independent ia) \<le> 6 \<and> invest_analysis.total ia \<le> 48
     \<and> analyzeUserStory (JStr (js ''Login'')) (JStr []) = Inr r
     \<and> (\<exists>p. path [''overallReadinessScore'', ''readinessRating''] r = JNum (of_int p) \<and> p \<le> 88)"
proof -
  obtain ia where ia: "analyzeINVEST (js ''Login'') (JStr []) = Inr ia"
    by (simp add: analyzeINVEST_def no_criteria)
  obtain r where r: "analyzeUserStory (JStr (js ''Login'')) (JStr []) = Inr r"
    using scored_report [OF Login_trim, of "[]"] by blast
  show ?thesis
    using ia r C4_rating_at_most_88 [of "js ''Login''" "JStr []" "JStr (js ''Login'')"] by blast
qed

section \<open>No exception on text\<close>

text \<open>
  C5. For every story text and every acceptance-criteria text the engine returns a
  report and raises nothing. When the story has a character left after trimming, the
  report carries a partial score: a rating of at least 33.
\<close>

theorem C5_never_throws:
  "\<exists>r. analyzeUserStory (JStr story) (JStr ac) = Inr r
     \<and> (trim story \<noteq> [] \<longrightarrow>
          (\<exists>p. path [''overallReadinessScore'', ''readinessRating''] r = JNum (of_int p) \<and> 33 \<le> p))"
proof (cases "trim story = []")
  case True
  then have "story_missing (JStr story)" by simp
  from missing_report [OF this, of "JStr ac"] True show ?thesis by blast
next
  case False
  from scored_report [OF False, of ac] obtain ca ia cat where
    r: "analyzeUserStory (JStr story) (JStr ac)
          = Inr (full_report
              (overallReadiness (clarity_analysis.total ca + invest_analysis.total ia) cat ca ia)
              ca ia (generateQueriesAndRecommendations story ca ia))"
    and b: "12 \<le> clarity_analysis.total ca" "21 \<le> invest_analysis.total ia"
    by blast
  have "33 \<le> clarity_analysis.total ca + invest_analysis.total ia"
    using b by simp
  then show ?thesis
    unfolding r using report_paths(1) by blast
qed

theorem C5_witness:
  "trim (js ''x'') \<noteq> []
   \<and> (\<exists>r. analyzeUserStory (JStr (js ''x'')) (JStr []) = Inr r
        \<and> (\<exists>p. path [''overallReadinessScore'', ''readinessRating''] r = JNum (of_int p) \<and> 33 \<le> p))"
proof -
  have t: "trim (js ''x'') \<noteq> []"
    by (simp add: text_defs)
  show ?thesis
    using t C5_never_throws [of "js ''x''" "[]"] by blast
qed

section \<open>The format sub-score\<close>

text \<open>
  C6 as it is written fails. The story of two spaces is not empty and does not match
  the template, yet its format sub-score in the report is 0, not 2.
\<close>

theorem C6_counterexample:
  "[32, 32] \<noteq> ([] :: jsstring)
   \<and> \<not> matches_template [32, 32]
   \<and> report_path [''clarityAndRequirementAnalysis'', ''formatCheck'', ''score'']
        (analyzeUserStory (JStr [32, 32]) (JStr [])) = Some (JNum 0)"
proof -
  have "STORY_FORMAT_REGEX [32, 32] = None"
    by (simp add: text_defs match_defs)
  then have "\<not> matches_template [32, 32]"
    using regex_matches_template [of "[32, 32]"] by simp
  moreover have "story_missing (JStr [32, 32])"
    by (simp add: text_defs)
  ultimately show ?thesis
    using empty_paths(5) [of "JStr [32, 32]" "JStr []"] by simp
qed

text \<open>
  C6, as amended. For every story text that still has a character after trimming, the
  format sub-score of the report is 10 when the story matches the template
  (\<open>matches_template\<close>: case-insensitive, anywhere in the text, persona and goal each
  within one line) and 2 otherwise.
\<close>

theorem C6_format_score:
  assumes "trim story \<noteq> []"
  shows "report_path [''clarityAndRequirementAnalysis'', ''formatCheck'', ''score'']
           (analyzeUserStory (JStr story) (JStr ac))
         = Some (JNum (if matches_template story then 10 else 2))"
proof -
  from scored_report [OF assms, of ac] obtain ca ia cat where
    r: "analyzeUserStory (JStr story) (JStr ac)
          = Inr (full_report
              (overallReadiness (clarity_analysis.total ca + invest_analysis.total ia) cat ca ia)
              ca ia (generateQueriesAndRecommendations story ca ia))"
    and f: "section_score.score (formatCheck ca) = formatScore story"
    by blast
  show ?thesis
    unfolding r report_path_def sum.case report_paths f formatScore_template
    by simp
qed

theorem C6_witness:
  "trim (js ''AS AN admin, i WANT x, SO THAT y'') \<noteq> []
   \<and> matches_template (js ''AS AN admin, i WANT x, SO THAT y'')
   \<and> report_path [''clarityAndRequirementAnalysis'', ''formatCheck'', ''score'']
        (analyzeUserStory (JStr (js ''AS AN admin, i WANT x, SO THAT y'')) (JStr [])) = Some (JNum 10)"
proof -
  have t: "trim (js ''AS AN admin, i WANT x, SO THAT y'') \<noteq> []"
    by (simp add: text_defs)
  have "STORY_FORMAT_REGEX (js ''AS AN admin, i WANT x, SO THAT y'') \<noteq> None"
    by (simp add: text_defs match_defs)
  then have m: "matches_template (js ''AS AN admin, i WANT x, SO THAT y'')"
    by (simp only: regex_matches_template)
  show ?thesis
    using t m C6_format_score [OF t, of "[]"] by simp
qed

section \<open>Two acceptance-criteria texts\<close>

text \<open>
  C7. For the acceptance criteria of the three lines "Given X", "When Y", "Then Z" the
  analysis finds three criteria, none of them without a testable keyword, and the
  acceptance-criteria sub-score is 15. For the two lines "It should just work" and
  "Make it nice" it finds two criteria, both without a testable keyword, which is more
  than half, and the sub-score is 10. This holds whatever the story text is.
\<close>

theorem C7_acceptance_criteria_examples:
  "analyzeAcceptanceCriteria (JStr (js ''Given X'' @ [10] @ js ''When Y'' @ [10] @ js ''Then Z''))
     = Inr \<lparr>criteria = [js ''Given X'', js ''When Y'', js ''Then Z''],
            testableKeywordsFound = True, nonTestableCount = 0\<rparr>
   \<and> (\<exists>ca. analyzeClarityAndRequirement story
            (JStr (js ''Given X'' @ [10] @ js ''When Y'' @ [10] @ js ''Then Z'')) = Inr ca
        \<and> section_score.score (acceptanceCriteria ca) = 15)
   \<and> analyzeAcceptanceCriteria (JStr (js ''It should just work'' @ [10] @ js ''Make it nice''))
     = Inr \<lparr>criteria = [js ''It should just work'', js ''Make it nice''],
            testableKeywordsFound = False, nonTestableCount = 2\<rparr>
   \<and> (\<exists>ca. analyzeClarityAndRequirement story
            (JStr (js ''It should just work'' @ [10] @ js ''Make it nice'')) = Inr ca
        \<and> section_score.score (acceptanceCriteria ca) = 10)"
proof -
  define A where "A = js ''Given X'' @ [10] @ js ''When Y'' @ [10] @ js ''Then Z''"
  define B where "B = js ''It should just work'' @ [10] @ js ''Make it nice''"
  have a: "analyzeAcceptanceCriteria (JStr A)
      = Inr \<lparr>criteria = [js ''Given X'', js ''When Y'', js ''Then Z''],
             testableKeywordsFound = True, nonTestableCount = 0\<rparr>"
    by (simp add: analyzeAcceptanceCriteria_def A_def count_criterion_def isTestable_def
        text_defs keyword_defs)
  have b: "analyzeAcceptanceCriteria (JStr B)
      = Inr \<lparr>criteria = [js ''It should just work'', js ''Make it nice''],
             testableKeywordsFound = False, nonTestableCount = 2\<rparr>"
    by (simp add: analyzeAcceptanceCriteria_def B_def count_criterion_def isTestable_def
        text_defs keyword_defs)
  have na: "A \<noteq> []" and nb: "B \<noteq> []"
    by (simp_all add: A_def B_def js_def)
  have ca: "\<exists>ca. analyzeClarityAndRequirement story (JStr A) = Inr ca
      \<and> section_score.score (acceptanceCriteria ca) = 15"
    by (simp add: analyzeClarityAndRequirement_def a acScore_def na mostly_non_testable_def scoring_defs)
  have cb: "\<exists>ca. analyzeClarityAndRequirement story (JStr B) = Inr ca
      \<and> section_score.score (acceptanceCriteria ca) = 10"
    by (simp add: analyzeClarityAndRequirement_def b acScore_def nb mostly_non_testable_def scoring_defs)
  show ?thesis
    unfolding A_def [symmetric] B_def [symmetric] using a ca b cb by (intro conjI)
qed

theorem C7_witness:
  "\<exists>ca. analyzeClarityAndRequirement (js ''Login'')
            (JStr (js ''Given X'' @ [10] @ js ''When Y'' @ [10] @ js ''Then Z'')) = Inr ca
        \<and> section_score.score (acceptanceCriteria ca) = 15"
  using C7_acceptance_criteria_examples [of "js ''Login''"] by blast

section \<open>The readiness classifier\<close>

text \<open>
  C8. The thresholds of the bands are 90, 71, 50, 0 in this order, and for every
  percentage the classifier returns the first band whose threshold the percentage
  meets or exceeds (\<open>band\<close>). On the scoring path the report carries the rating together
  with the label and the summary of the band that the classifier returns for that
  rating, and that band is one of the four configured ones.
\<close>

theorem C8_readiness_bands:
  "map category.score READINESS_CATEGORIES = [90, 71, 50, 0]
   \<and> getReadinessCategory p = band p
   \<and> (trim story \<noteq> [] \<longrightarrow>
        (\<exists>q cat. getReadinessCategory q = Some cat \<and> cat \<in> set READINESS_CATEGORIES
           \<and> report_path [''overallReadinessScore'', ''readinessRating'']
                (analyzeUserStory (JStr story) (JStr ac)) = Some (JNum (of_int q))
           \<and> report_path [''overallReadinessScore'', ''readinessCategory'']
                (analyzeUserStory (JStr story) (JStr ac)) = Some (JStr (label cat))
           \<and> report_path [''overallReadinessScore'', ''summary'']
                (analyzeUserStory (JStr story) (JStr ac)) = Some (JStr (summary cat))))"
proof (intro conjI impI)
  show "map category.score READINESS_CATEGORIES = [90, 71, 50, 0]"
    by (simp add: READINESS_CATEGORIES_def)
  show "getReadinessCategory p = band p"
    by (rule getReadinessCategory_band)
next
  assume "trim story \<noteq> []"
  from scored_report [OF this, of ac] obtain ca ia cat where
    r: "analyzeUserStory (JStr story) (JStr ac)
          = Inr (full_report
              (overallReadiness (clarity_analysis.total ca + invest_analysis.total ia) cat ca ia)
              ca ia (generateQueriesAndRecommendations story ca ia))"
    and c: "band (clarity_analysis.total ca + invest_analysis.total ia) = Some cat"
    by blast
  show "\<exists>q cat. getReadinessCategory q = Some cat \<and> cat \<in> set READINESS_CATEGORIES
           \<and> report_path [''overallReadinessScore'', ''readinessRating'']
                (analyzeUserStory (JStr story) (JStr ac)) = Some (JNum (of_int q))
           \<and> report_path [''overallReadinessScore'', ''readinessCategory'']
                (analyzeUserStory (JStr story) (JStr ac)) = Some (JStr (label cat))
           \<and> report_path [''overallReadinessScore'', ''summary'']
                (analyzeUserStory (JStr story) (JStr ac)) = Some (JStr (summary cat))"
    unfolding r report_path_def sum.case report_paths getReadinessCategory_band
    using c band_member [OF c] by blast
qed

theorem C8_witness:
  "getReadinessCategory 66 = Some (READINESS_CATEGORIES ! 2)
   \<and> trim (js ''Login'') \<noteq> []
   \<and> (\<exists>q cat. getReadinessCategory q = Some cat \<and> cat \<in> set READINESS_CATEGORIES
        \<and> report_path [''overallReadinessScore'', ''readinessRating'']
             (analyzeUserStory (JStr (js ''Login'')) (JStr [])) = Some (JNum (of_int q))
        \<and> report_path [''overallReadinessScore'', ''readinessCategory'']
             (analyzeUserStory (JStr (js ''Login'')) (JStr [])) = Some (JStr (label cat)))"
proof -
  have "band 66 = Some (READINESS_CATEGORIES ! 2)"
    by (simp add: band_def)
  then show ?thesis
    using Login_trim C8_readiness_bands [of 66 "js ''Login''" "[]"] by auto
qed

section \<open>No state between calls\<close>

text \<open>
  At the store of the loaded module every function on the store returns what the
  function of the arguments alone returns.
\<close>

lemma CONFIG_reads:
  "cfg_SHORT_STORY_LENGTH CONFIG = SHORT_STORY_LENGTH"
  "cfg_LONG_STORY_LENGTH CONFIG = LONG_STORY_LENGTH"
  "cfg_MAX_ACCEPTANCE_CRITERIA CONFIG = MAX_ACCEPTANCE_CRITERIA"
  "cfg_AMBIGUOUS CONFIG = AMBIGUOUS"
  "cfg_DEPENDENCIES CONFIG = DEPENDENCIES"
  "cfg_TECHNICAL CONFIG = TECHNICAL"
  "cfg_TESTABLE_AC CONFIG = TESTABLE_AC"
  "cfg_FORMAT_SUCCESS CONFIG = FORMAT_SUCCESS"
  "cfg_FORMAT_FAIL CONFIG = FORMAT_FAIL"
  "cfg_CLARITY_BASE CONFIG = CLARITY_BASE"
  "cfg_CLARITY_BONUS_CONCISE CONFIG = CLARITY_BONUS_CONCISE"
  "cfg_CLARITY_BONUS_SPECIFIC CONFIG = CLARITY_BONUS_SPECIFIC"
  "cfg_AC_PROVIDED CONFIG = AC_PROVIDED"
  "cfg_AC_EMPTY CONFIG = AC_EMPTY"
  "cfg_AC_MISSING CONFIG = AC_MISSING"
  "cfg_AC_NON_TESTABLE_DEDUCTION CONFIG = AC_NON_TESTABLE_DEDUCTION"
  "cfg_INVEST_DEFAULT_HIGH CONFIG = INVEST_DEFAULT_HIGH"
  "cfg_INVEST_DEFAULT_MEDIUM CONFIG = INVEST_DEFAULT_MEDIUM"
  "cfg_INVEST_DEFAULT_LOW CONFIG = INVEST_DEFAULT_LOW"
  "cfg_READINESS_CATEGORIES CONFIG = READINESS_CATEGORIES"
  by (simp_all add: CONFIG_def)

lemma CONFIG_locals:
  "formatScore_st CONFIG story = formatScore story"
  "hasAmbiguousTerms_st CONFIG story = hasAmbiguousTerms story"
  "clarityScore_st CONFIG story = clarityScore story"
  "clarityFeedbackItems_st CONFIG story = clarityFeedbackItems story"
  "clarityFinalScore_st CONFIG story = clarityFinalScore story"
  "clarityFinalFeedback_st CONFIG story = clarityFinalFeedback story"
  "acScore_st CONFIG ac x = acScore ac x"
  "isTestable_st CONFIG c = isTestable c"
  "count_criterion_st CONFIG c k = count_criterion c k"
  "hasDependencyKeywords_st CONFIG story = hasDependencyKeywords story"
  "independent_I_st CONFIG story = independent_I story"
  "hasTechnicalTerms_st CONFIG story = hasTechnicalTerms story"
  "negotiable_N_st CONFIG story = negotiable_N story"
  "valuable_V_st CONFIG story = valuable_V story"
  "isEstimable_st CONFIG story x = isEstimable story x"
  "estimable_E_st CONFIG story x = estimable_E story x"
  "isLarge_st CONFIG story x = isLarge story x"
  "small_S_st CONFIG story x = small_S story x"
  "testableScore_st CONFIG x = testableScore x"
  "testable_T_st CONFIG x = testable_T x"
  by (simp_all only: formatScore_st_def formatScore_def hasAmbiguousTerms_st_def hasAmbiguousTerms_def clarityScore_st_def clarityScore_def clarityFeedbackItems_st_def clarityFeedbackItems_def clarityFinalScore_st_def clarityFinalScore_def clarityFinalFeedback_st_def clarityFinalFeedback_def acScore_st_def acScore_def isTestable_st_def isTestable_def count_criterion_st_def count_criterion_def hasDependencyKeywords_st_def hasDependencyKeywords_def independent_I_st_def independent_I_def hasTechnicalTerms_st_def hasTechnicalTerms_def negotiable_N_st_def negotiable_N_def valuable_V_st_def valuable_V_def isEstimable_st_def isEstimable_def estimable_E_st_def estimable_E_def isLarge_st_def isLarge_def small_S_st_def small_S_def testableScore_st_def testableScore_def testable_T_st_def testable_T_def CONFIG_reads)

lemma count_criterion_CONFIG: "count_criterion_st CONFIG = count_criterion"
  by (rule ext, rule ext) (rule CONFIG_locals)

lemma getReadinessCategory_CONFIG:
  "getReadinessCategory_st p CONFIG = (getReadinessCategory p, CONFIG)"
  by (simp only: getReadinessCategory_st_def getReadinessCategory_def CONFIG_reads)

lemma analyzeAcceptanceCriteria_CONFIG:
  "analyzeAcceptanceCriteria_st ac CONFIG = (analyzeAcceptanceCriteria ac, CONFIG)"
  by (cases ac)
    (simp_all add: analyzeAcceptanceCriteria_st_def analyzeAcceptanceCriteria_def
      count_criterion_CONFIG Let_def)

lemma analyzeClarityAndRequirement_CONFIG:
  "analyzeClarityAndRequirement_st story ac CONFIG = (analyzeClarityAndRequirement story ac, CONFIG)"
  by (cases "analyzeAcceptanceCriteria ac")
    (simp_all add: analyzeClarityAndRequirement_st_def analyzeClarityAndRequirement_def
      analyzeAcceptanceCriteria_CONFIG CONFIG_locals)

lemma analyzeINVEST_CONFIG:
  "analyzeINVEST_st story ac CONFIG = (analyzeINVEST story ac, CONFIG)"
  by (cases "analyzeAcceptanceCriteria ac")
    (simp_all add: analyzeINVEST_st_def analyzeINVEST_def analyzeAcceptanceCriteria_CONFIG
      CONFIG_locals)

lemma generateQueriesAndRecommendations_CONFIG:
  "generateQueriesAndRecommendations_st story ca ia CONFIG
     = (generateQueriesAndRecommendations story ca ia, CONFIG)"
  by (simp only: generateQueriesAndRecommendations_st_def generateQueriesAndRecommendations_def
      CONFIG_reads Let_def)

lemma generateEmptyReport_CONFIG:
  "generateEmptyReport_st CONFIG = (generateEmptyReport, CONFIG)"
  by (cases "getReadinessCategory 0")
    (simp_all add: generateEmptyReport_st_def generateEmptyReport_def getReadinessCategory_CONFIG
      Let_def)

lemma score_story_CONFIG:
  "score_story_st story ac CONFIG = (score_story story ac, CONFIG)"
proof (cases "analyzeClarityAndRequirement story ac")
  case (Inl e)
  then show ?thesis
    by (simp add: score_story_st_def score_story_def analyzeClarityAndRequirement_CONFIG)
next
  case ca: (Inr ca)
  show ?thesis
  proof (cases "analyzeINVEST story ac")
    case (Inl e)
    then show ?thesis
      by (simp add: score_story_st_def score_story_def analyzeClarityAndRequirement_CONFIG
          analyzeINVEST_CONFIG ca)
  next
    case ia: (Inr ia)
    let ?p = "js_round (rat_of_int (clarity_analysis.total ca + invest_analysis.total ia)
        / rat_of_int (40 + 60) * 100)"
    show ?thesis
      by (cases "getReadinessCategory ?p")
        (simp_all add: score_story_st_def score_story_def analyzeClarityAndRequirement_CONFIG
          analyzeINVEST_CONFIG ca ia getReadinessCategory_CONFIG
          generateQueriesAndRecommendations_CONFIG Let_def)
  qed
qed

lemma analyzeUserStory_CONFIG:
  "analyzeUserStory_st story ac CONFIG = (analyzeUserStory story ac, CONFIG)"
proof (cases "story_missing story")
  case True
  then show ?thesis
    by (simp add: analyzeUserStory_st_def analyzeUserStory_def generateEmptyReport_CONFIG
        generateEmptyReport_eq Let_def)
next
  case False
  then obtain s where "story = JStr s"
    by (cases story) simp_all
  with False show ?thesis
    by (simp add: analyzeUserStory_st_def analyzeUserStory_def score_story_CONFIG Let_def)
qed

text \<open>Whatever the store is, a function of the module returns it as it found it.\<close>

lemma getReadinessCategory_frame: "snd (getReadinessCategory_st p \<sigma>) = \<sigma>"
  by (simp add: getReadinessCategory_st_def)

lemma analyzeAcceptanceCriteria_frame: "snd (analyzeAcceptanceCriteria_st ac \<sigma>) = \<sigma>"
  by (cases ac) (simp_all add: analyzeAcceptanceCriteria_st_def Let_def)

lemma analyzeClarityAndRequirement_frame: "snd (analyzeClarityAndRequirement_st story ac \<sigma>) = \<sigma>"
proof -
  obtain a where a: "analyzeAcceptanceCriteria_st ac \<sigma> = (a, \<sigma>)"
    using analyzeAcceptanceCriteria_frame [of ac \<sigma>] by (metis prod.collapse)
  show ?thesis
    by (cases a) (simp_all add: analyzeClarityAndRequirement_st_def a)
qed

lemma analyzeINVEST_frame: "snd (analyzeINVEST_st story ac \<sigma>) = \<sigma>"
proof -
  obtain a where a: "analyzeAcceptanceCriteria_st ac \<sigma> = (a, \<sigma>)"
    using analyzeAcceptanceCriteria_frame [of ac \<sigma>] by (metis prod.collapse)
  show ?thesis
    by (cases a) (simp_all add: analyzeINVEST_st_def a)
qed

lemma generateQueriesAndRecommendations_frame:
  "snd (generateQueriesAndRecommendations_st story ca ia \<sigma>) = \<sigma>"
  by (simp add: generateQueriesAndRecommendations_st_def Let_def)

lemma generateEmptyReport_frame: "snd (generateEmptyReport_st \<sigma>) = \<sigma>"
proof -
  obtain c where c: "getReadinessCategory_st 0 \<sigma> = (c, \<sigma>)"
    using getReadinessCategory_frame [of 0 \<sigma>] by (metis prod.collapse)
  show ?thesis
    by (cases c) (simp_all add: generateEmptyReport_st_def c Let_def)
qed

lemma score_story_frame: "snd (score_story_st story ac \<sigma>) = \<sigma>"
proof -
  obtain c where c: "analyzeClarityAndRequirement_st story ac \<sigma> = (c, \<sigma>)"
    using analyzeClarityAndRequirement_frame [of story ac \<sigma>] by (metis prod.collapse)
  obtain i where i: "analyzeINVEST_st story ac \<sigma> = (i, \<sigma>)"
    using analyzeINVEST_frame [of story ac \<sigma>] by (metis prod.collapse)
  show ?thesis
  proof (cases c)
    case (Inl e)
    then show ?thesis by (simp add: score_story_st_def c)
  next
    case ca: (Inr ca)
    show ?thesis
    proof (cases i)
      case (Inl e)
      then show ?thesis by (simp add: score_story_st_def c ca i)
    next
      case ia: (Inr ia)
      show ?thesis
        by (simp add: score_story_st_def c ca i ia Let_def split_def getReadinessCategory_st_def
            generateQueriesAndRecommendations_frame split: option.splits)
    qed
  qed
qed

lemma analyzeUserStory_frame: "snd (analyzeUserStory_st story ac \<sigma>) = \<sigma>"
proof (cases "story_missing story")
  case True
  obtain r where r: "generateEmptyReport_st \<sigma> = (r, \<sigma>)"
    using generateEmptyReport_frame [of \<sigma>] by (metis prod.collapse)
  from True show ?thesis
    by (cases r) (simp_all add: analyzeUserStory_st_def r Let_def)
next
  case False
  then obtain s where "story = JStr s"
    by (cases story) simp_all
  with False show ?thesis
    by (simp add: analyzeUserStory_st_def score_story_frame Let_def)
qed

text \<open>
  C9. Calling the engine twice with identical story and acceptance-criteria arguments
  yields identical reports, because a call leaves nothing behind: from any store of the
  module, a call returns the store unchanged; a second call with the same arguments,
  made from the store that the first one left, returns the same result; a call made
  after any other call returns what it returns without that call; and from the store
  of the loaded module the result is the report \<open>analyzeUserStory story ac\<close> of the
  sections above.
\<close>

theorem C9_no_hidden_state:
  "snd (analyzeUserStory_st story ac \<sigma>) = \<sigma>
   \<and> (\<forall>r1 \<sigma>1 r2 \<sigma>2.
         analyzeUserStory_st story ac \<sigma> = (r1, \<sigma>1) \<longrightarrow>
         analyzeUserStory_st story ac \<sigma>1 = (r2, \<sigma>2) \<longrightarrow>
         r2 = r1 \<and> \<sigma>2 = \<sigma>1)
   \<and> fst (analyzeUserStory_st story ac (snd (analyzeUserStory_st story' ac' \<sigma>)))
        = fst (analyzeUserStory_st story ac \<sigma>)
   \<and> analyzeUserStory_st story ac CONFIG = (analyzeUserStory story ac, CONFIG)"
proof (intro conjI allI impI)
  show "snd (analyzeUserStory_st story ac \<sigma>) = \<sigma>"
    by (rule analyzeUserStory_frame)
  show "fst (analyzeUserStory_st story ac (snd (analyzeUserStory_st story' ac' \<sigma>)))
      = fst (analyzeUserStory_st story ac \<sigma>)"
    by (simp only: analyzeUserStory_frame)
  show "analyzeUserStory_st story ac CONFIG = (analyzeUserStory story ac, CONFIG)"
    by (rule analyzeUserStory_CONFIG)
next
  fix r1 \<sigma>1 r2 \<sigma>2
  assume 1: "analyzeUserStory_st story ac \<sigma> = (r1, \<sigma>1)"
    and 2: "analyzeUserStory_st story ac \<sigma>1 = (r2, \<sigma>2)"
  have "\<sigma>1 = \<sigma>"
    using analyzeUserStory_frame [of story ac \<sigma>] 1 by simp
  with 1 2 show "r2 = r1" and "\<sigma>2 = \<sigma>1"
    by simp_all
qed

theorem C9_witness:
  "analyzeUserStory_st (JStr (js ''Login'')) (JStr (js ''Given X'')) CONFIG
     = (analyzeUserStory (JStr (js ''Login'')) (JStr (js ''Given X'')), CONFIG)
   \<and> analyzeUserStory_st (JStr (js ''Login'')) (JStr (js ''Given X''))
        (snd (analyzeUserStory_st (JStr (js ''Login'')) (JStr (js ''Given X'')) CONFIG))
     = (analyzeUserStory (JStr (js ''Login'')) (JStr (js ''Given X'')), CONFIG)"
  using C9_no_hidden_state [of "JStr (js ''Login'')" "JStr (js ''Given X'')" CONFIG]
  by simp

section \<open>The shape of the empty report\<close>

text \<open>
  C10. The claim asks for a \<^verbatim>\<open>totalScore\<close> in the clarity section and in the INVEST
  section of every report. The report for a story of a single space has the three
  clarity sub-fields and the six INVEST sub-fields with their scores, but neither
  section has a \<^verbatim>\<open>totalScore\<close> (\<open>full_report_shape\<close>: the scoring path has both).
\<close>

theorem C10_empty_report_lacks_totalScore:
  "report_has [''clarityAndRequirementAnalysis'', ''formatCheck'', ''score'']
     (analyzeUserStory (JStr (js '' '')) (JStr []))
   \<and> \<not> report_has [''clarityAndRequirementAnalysis'', ''totalScore'']
     (analyzeUserStory (JStr (js '' '')) (JStr []))
   \<and> report_has [''investCriteriaAssessment'', ''testable'', ''score'']
     (analyzeUserStory (JStr (js '' '')) (JStr []))
   \<and> \<not> report_has [''investCriteriaAssessment'', ''totalScore'']
     (analyzeUserStory (JStr (js '' '')) (JStr []))"
  using blank_missing
  by (simp add: analyzeUserStory_def generateEmptyReport_eq report_has_def Let_def)

end
